theory Spec2Isabelle
  imports Complex_Main
begin

section \<open>Colour types and pixel geometry\<close>

text \<open>
  Modelled from the spec: the table \<open>ColorTypes\<close> of \<open>util/constants\<close>. The document
  accepts exactly five colour types (\<open>_applyMetaData\<close> rejects every other value), so
  the enumeration is a datatype.
\<close>

datatype ColorType =
  GRAYSCALE | TRUECOLOR | INDEXED | GRAYSCALE_AND_ALPHA | TRUECOLOR_AND_ALPHA

text \<open>
  Modelled from the spec: the predicates and size tables of \<open>util/png-pixels\<close> and
  \<open>util/pixels\<close>. The colour sample count is 1 for grayscale and indexed images and 3 for
  truecolour ones; the two alpha types carry one more sample; the full pixel size is the
  colour sample count plus one if the type carries alpha.
\<close>

definition isIndexed :: "ColorType \<Rightarrow> bool" where
  "isIndexed ct = (ct = INDEXED)"

fun hasAlphaSample :: "ColorType \<Rightarrow> bool" where
  "hasAlphaSample GRAYSCALE_AND_ALPHA = True"
| "hasAlphaSample TRUECOLOR_AND_ALPHA = True"
| "hasAlphaSample _ = False"

definition determineHasAlphaSample :: "ColorType \<Rightarrow> bool" where
  "determineHasAlphaSample ct = hasAlphaSample ct"

fun determinePixelColorSize :: "ColorType \<Rightarrow> nat" where
  "determinePixelColorSize GRAYSCALE = 1"
| "determinePixelColorSize INDEXED = 1"
| "determinePixelColorSize GRAYSCALE_AND_ALPHA = 1"
| "determinePixelColorSize TRUECOLOR = 3"
| "determinePixelColorSize TRUECOLOR_AND_ALPHA = 3"

definition determineFullPixelSize :: "ColorType \<Rightarrow> nat" where
  "determineFullPixelSize ct =
     determinePixelColorSize ct + (if hasAlphaSample ct then 1 else 0)"

definition computeNumberOfPixels :: "nat \<Rightarrow> nat \<Rightarrow> nat" where
  "computeNumberOfPixels w h = w * h"

definition computeMaxNumberOfColors :: "nat \<Rightarrow> nat" where
  "computeMaxNumberOfColors d = 2 ^ d"

text \<open>
  The samples-per-pixel table as the data model of the specification words it: 1 for
  grayscale and indexed, 2 for grayscale with alpha, 3 for truecolour, 4 for truecolour
  with alpha.
\<close>

fun samplesPerPixel :: "ColorType \<Rightarrow> nat" where
  "samplesPerPixel GRAYSCALE = 1"
| "samplesPerPixel INDEXED = 1"
| "samplesPerPixel GRAYSCALE_AND_ALPHA = 2"
| "samplesPerPixel TRUECOLOR = 3"
| "samplesPerPixel TRUECOLOR_AND_ALPHA = 4"

section \<open>The pixel-data chunk (IDAT)\<close>

text \<open>
  The layout fields of the chunk are those \<open>applyLayoutInformation\<close> sets; the sample
  buffer \<open>_pixelData\<close> is a \<open>Uint8ClampedArray\<close>, a fixed-length array of bytes.
\<close>

record IDAT =
  i_width :: nat
  i_height :: nat
  i_depth :: nat
  i_colorType :: ColorType
  i_numberOfPixels :: nat
  i_pixelColorSize :: nat
  i_hasAlphaSample :: bool
  i_pixelData :: "nat list"

definition DEFLATE_BLOCKS_SIZE :: nat where "DEFLATE_BLOCKS_SIZE = 2"
definition ZLIB_HEADER_SIZE :: nat where "ZLIB_HEADER_SIZE = 5"
definition ADLER_CHECKSUM_SIZE :: nat where "ADLER_CHECKSUM_SIZE = 4"

definition applyLayoutInformation ::
  "nat \<Rightarrow> nat \<Rightarrow> nat \<Rightarrow> ColorType \<Rightarrow> nat \<Rightarrow> IDAT \<Rightarrow> IDAT" where
  "applyLayoutInformation w h d ct n c =
     c\<lparr>i_width := w, i_height := h, i_depth := d, i_colorType := ct,
       i_numberOfPixels := n,
       i_pixelColorSize := determinePixelColorSize ct,
       i_hasAlphaSample := determineHasAlphaSample ct\<rparr>"

text \<open>
  The sizes are JavaScript numbers, that is IEEE 754 doubles: a 53-bit significand, and
  every sum, product and quotient rounded to the nearest double, ties to the even
  significand. The sizes are non-negative integers, so a number is a natural number
  here, and \<open>None\<close> is a result that is not a finite number (\<open>Infinity\<close> or \<open>NaN\<close>), which
  every further operation of these expressions keeps non-finite.

  \<open>bitLength n\<close> is the number of binary digits of \<open>n\<close>, and \<open>roundHalfEven N D\<close> the
  integer nearest to \<open>N / D\<close>, the even one on a tie. \<open>toDouble n\<close> is the double nearest
  to the integer \<open>n\<close>: \<open>n\<close> itself below \<open>2^53\<close>, and above it the nearest multiple of
  \<open>2^e\<close> with a 53-bit factor, or \<open>Infinity\<close> from \<open>2^1024\<close> on.
\<close>

fun bitLength :: "nat \<Rightarrow> nat" where
  "bitLength n = (if n = 0 then 0 else Suc (bitLength (n div 2)))"

declare bitLength.simps [simp del]

definition roundHalfEven :: "nat \<Rightarrow> nat \<Rightarrow> nat" where
  "roundHalfEven N D =
     (let q = N div D; r = N mod D
      in if 2 * r < D then q
         else if D < 2 * r then q + 1
         else if even q then q else q + 1)"

definition toDouble :: "nat \<Rightarrow> nat option" where
  "toDouble n =
     (if n < 2 ^ 53 then Some n
      else let e = bitLength n - 53;
               v = roundHalfEven n (2 ^ e) * 2 ^ e
           in if v < 2 ^ 1024 then Some v else None)"

definition js_add :: "nat option \<Rightarrow> nat option \<Rightarrow> nat option" where
  "js_add x y =
     (case x of None \<Rightarrow> None
      | Some a \<Rightarrow> (case y of None \<Rightarrow> None | Some b \<Rightarrow> toDouble (a + b)))"

definition js_mul :: "nat option \<Rightarrow> nat option \<Rightarrow> nat option" where
  "js_mul x y =
     (case x of None \<Rightarrow> None
      | Some a \<Rightarrow> (case y of None \<Rightarrow> None | Some b \<Rightarrow> toDouble (a * b)))"

text \<open>
  The quotient \<open>a / b\<close> of two positive numbers as a double: the significand \<open>m\<close> and the
  exponent \<open>e\<close> of the value \<open>m * 2^e\<close>. With \<open>L\<close> the integer part of the binary
  logarithm of \<open>a / b\<close> (found from the bit lengths and one comparison), the exponent is
  \<open>L - 52\<close> and the significand is \<open>a / b / 2^e\<close> rounded to an integer. The only divisor
  in these expressions is \<open>0xffff\<close>, so the quotient of a finite number neither overflows
  nor leaves the normal range. \<open>Math.floor\<close> of a double is a double. A quotient by zero
  is not finite.
\<close>

definition divide_double :: "nat \<Rightarrow> nat \<Rightarrow> nat \<times> int" where
  "divide_double a b =
     (if a = 0 then (0, 0)
      else let d = int (bitLength a) - int (bitLength b);
               L = (if b * 2 ^ nat d \<le> a * 2 ^ nat (- d) then d else d - 1);
               e = L - 52
           in (roundHalfEven (a * 2 ^ nat (- e)) (b * 2 ^ nat e), e))"

definition floor_double :: "nat \<times> int \<Rightarrow> nat" where
  "floor_double x =
     (case x of (m, e) \<Rightarrow> if 0 \<le> e then m * 2 ^ nat e else m div 2 ^ nat (- e))"

definition js_floor_divide :: "nat option \<Rightarrow> nat \<Rightarrow> nat option" where
  "js_floor_divide x b =
     (case x of None \<Rightarrow> None
      | Some a \<Rightarrow> if b = 0 then None else Some (floor_double (divide_double a b)))"

text \<open>
  \<open>calculatePixelAndFilterSize\<close> and \<open>calculatePayloadSize\<close>, operation by operation in the
  order JavaScript evaluates them. The fields and the argument are numbers, so they
  enter as the doubles they are.
\<close>

definition calculatePixelAndFilterSize :: "IDAT \<Rightarrow> nat option" where
  "calculatePixelAndFilterSize c =
     (let fullPixelSize =
            js_add (toDouble (i_pixelColorSize c)) (Some (if i_hasAlphaSample c then 1 else 0))
      in js_mul (js_add (js_mul (toDouble (i_width c)) fullPixelSize) (Some 1))
           (toDouble (i_height c)))"

text \<open>
  \<open>calculatePayloadSize(pixelAndFilterSize = -1)\<close>: the default argument \<open>-1\<close> stands for
  "compute it from the layout"; it is \<open>None\<close> here.
\<close>

definition calculatePayloadSize :: "IDAT \<Rightarrow> nat option \<Rightarrow> nat option" where
  "calculatePayloadSize c arg =
     (let pixelAndFilterSize =
            (case arg of None \<Rightarrow> calculatePixelAndFilterSize c | Some p \<Rightarrow> toDouble p)
      in js_add
           (js_add
              (js_add (Some DEFLATE_BLOCKS_SIZE) pixelAndFilterSize)
              (js_mul (Some ZLIB_HEADER_SIZE)
                 (js_floor_divide (js_add (Some 0xfffe) pixelAndFilterSize) 0xffff)))
           (Some ADLER_CHECKSUM_SIZE))"

text \<open>
  The constructor of the chunk: it applies the layout and allocates the sample buffer,
  zero-filled, with \<open>calculatePixelAndFilterSize()\<close> entries (none for \<open>NaN\<close>). An
  allocation that the runtime refuses with a \<open>RangeError\<close>, as it does for a size it
  cannot serve and for \<open>Infinity\<close>, is not modelled.
\<close>

definition IDAT_new :: "nat \<Rightarrow> nat \<Rightarrow> nat \<Rightarrow> ColorType \<Rightarrow> nat \<Rightarrow> IDAT" where
  "IDAT_new w h d ct n =
     (let c = applyLayoutInformation w h d ct n
                \<lparr>i_width = 0, i_height = 0, i_depth = 0, i_colorType = ct,
                 i_numberOfPixels = 0, i_pixelColorSize = 0, i_hasAlphaSample = False,
                 i_pixelData = []\<rparr>
      in c\<lparr>i_pixelData :=
             replicate (case calculatePixelAndFilterSize c of None \<Rightarrow> 0 | Some k \<Rightarrow> k) 0\<rparr>)"

text \<open>
  Modelled from the spec: the per-sample accessors \<open>getValueAt\<close>, \<open>getPixelOf\<close> and
  \<open>setPixelOf\<close> that the document calls on the chunk. The chunk class under \<open>src/\<close>
  defines \<open>setPixel\<close> only. They read or write a single byte (indexed, and grayscale
  without alpha) or a tuple of \<open>fullPixelSize\<close> samples at the given offset. A typed array
  reads \<open>undefined\<close> past its end, ignores a write past its end, never changes its
  length, and clamps every value it stores to \<open>0..255\<close>; its elements are natural
  numbers here, and the values a caller passes are integers.
\<close>

datatype jsval = Undefined | Num int | Arr "int list"

definition clamp8 :: "int \<Rightarrow> nat" where
  "clamp8 v = nat (max 0 (min 255 v))"

definition IDAT_getValueAt :: "IDAT \<Rightarrow> nat \<Rightarrow> jsval" where
  "IDAT_getValueAt c index =
     (if index < length (i_pixelData c) then Num (int (i_pixelData c ! index)) else Undefined)"

definition IDAT_getPixelOf :: "IDAT \<Rightarrow> nat \<Rightarrow> jsval" where
  "IDAT_getPixelOf c index =
     (let fullPixelSize = i_pixelColorSize c + (if i_hasAlphaSample c then 1 else 0)
      in if fullPixelSize = 1 then IDAT_getValueAt c index
         else Arr (map int (take fullPixelSize (drop index (i_pixelData c)))))"

fun write_samples :: "nat list \<Rightarrow> nat \<Rightarrow> int list \<Rightarrow> nat list" where
  "write_samples buf index [] = buf"
| "write_samples buf index (v # vs) = write_samples (buf[index := clamp8 v]) (Suc index) vs"

definition IDAT_setPixelOf :: "IDAT \<Rightarrow> nat \<Rightarrow> jsval \<Rightarrow> IDAT" where
  "IDAT_setPixelOf c index v =
     (case v of
        Undefined \<Rightarrow> c\<lparr>i_pixelData := (i_pixelData c)[index := 0]\<rparr>
      | Num n \<Rightarrow> c\<lparr>i_pixelData := (i_pixelData c)[index := clamp8 n]\<rparr>
      | Arr vs \<Rightarrow> c\<lparr>i_pixelData := write_samples (i_pixelData c) index vs\<rparr>)"

section \<open>Errors\<close>

text \<open>
  Every \<open>throw new Error(...)\<close> of the source is a value of this type, named as the
  specification's error taxonomy names it. \<open>InsufficientSamples n\<close> carries the expected
  sample count of the message "Not enough samples supplied for pixel; expected n".
  \<open>TypeError\<close> is the error of the JavaScript runtime for a method call on a chunk slot
  that is \<open>undefined\<close>.
\<close>

datatype error =
    InvalidMetadata | NotAPng | InvalidCodec | NoPalette | NoTransparency | NoBackground
  | IndexOutOfRange | PaletteFull | InsufficientSamples nat | SampleCountMismatch
  | UnsupportedOperation | TypeError

section \<open>The palette chunk (PLTE)\<close>

text \<open>
  Modelled from the spec: the palette chunk, whose class is not under \<open>src/\<close>. It is an
  ordered table of colours with capacity \<open>maxNumberOfColors\<close>. \<open>addColor\<close> appends and
  returns the new index, and fails with \<open>PaletteFull\<close> when the length would exceed the
  capacity; \<open>isColorInPalette\<close> and \<open>getPaletteIndex\<close> search linearly for an equal
  entry (\<open>-1\<close> when there is none); \<open>setColorOf\<close> overwrites an entry in place;
  \<open>getColorOf\<close> fails with \<open>IndexOutOfRange\<close> when the index is not below the length.
\<close>

record PLTE =
  p_palette :: "int list list"
  p_maxNumberOfColors :: nat

definition PLTE_new :: "nat \<Rightarrow> PLTE" where
  "PLTE_new maxColors = \<lparr>p_palette = [], p_maxNumberOfColors = maxColors\<rparr>"

definition PLTE_getPalette :: "PLTE \<Rightarrow> int list list" where
  "PLTE_getPalette p = p_palette p"

definition PLTE_isColorInPalette :: "PLTE \<Rightarrow> int list \<Rightarrow> bool" where
  "PLTE_isColorInPalette p color = (color \<in> set (p_palette p))"

fun firstIndexOf :: "'a list \<Rightarrow> 'a \<Rightarrow> nat \<Rightarrow> int" where
  "firstIndexOf [] c i = -1"
| "firstIndexOf (x # xs) c i = (if x = c then int i else firstIndexOf xs c (Suc i))"

definition PLTE_getPaletteIndex :: "PLTE \<Rightarrow> int list \<Rightarrow> int" where
  "PLTE_getPaletteIndex p color = firstIndexOf (p_palette p) color 0"

definition PLTE_addColor :: "PLTE \<Rightarrow> int list \<Rightarrow> error + (PLTE \<times> int)" where
  "PLTE_addColor p color =
     (if length (p_palette p) + 1 > p_maxNumberOfColors p then Inl PaletteFull
      else Inr (p\<lparr>p_palette := p_palette p @ [color]\<rparr>, int (length (p_palette p))))"

definition PLTE_setColorOf :: "PLTE \<Rightarrow> nat \<Rightarrow> int list \<Rightarrow> PLTE" where
  "PLTE_setColorOf p index color = p\<lparr>p_palette := (p_palette p)[index := color]\<rparr>"

fun PLTE_getColorOf :: "PLTE \<Rightarrow> jsval \<Rightarrow> error + jsval" where
  "PLTE_getColorOf p (Num n) =
     (if n \<ge> int (length (p_palette p)) then Inl IndexOutOfRange
      else if n < 0 then Inr Undefined
      else Inr (Arr (p_palette p ! nat n)))"
| "PLTE_getColorOf p _ = Inr Undefined"

section \<open>The transparency chunk (tRNS)\<close>

text \<open>
  Modelled from the spec: the transparency chunk, whose class is not under \<open>src/\<close>. Its
  table holds either alpha values keyed by palette index (an entry that was never set
  reads \<open>undefined\<close>) or literal colour keys. \<open>setTransparency value index\<close> stores
  \<open>value\<close> as the alpha of palette entry \<open>index\<close> when an index is supplied (the
  document's default \<open>-1\<close> means none), growing the table as a JavaScript array grows;
  without an index it registers \<open>value\<close> as a colour key. \<open>getValueOf\<close> returns the
  stored alpha or \<open>undefined\<close>; \<open>isTransparencySet\<close> tests colour-key membership;
  \<open>removeTransparency\<close> deletes a colour key and \<open>removeTransparencyOf\<close> the entry of an
  index.
\<close>

record tRNS =
  t_colorType :: ColorType
  t_numberOfPixels :: nat
  t_maxNumberOfColors :: nat
  t_transparencies :: "jsval list"

definition tRNS_new :: "ColorType \<Rightarrow> nat \<Rightarrow> nat \<Rightarrow> tRNS" where
  "tRNS_new ct n maxColors =
     \<lparr>t_colorType = ct, t_numberOfPixels = n, t_maxNumberOfColors = maxColors,
      t_transparencies = []\<rparr>"

definition array_store :: "jsval list \<Rightarrow> nat \<Rightarrow> jsval \<Rightarrow> jsval list" where
  "array_store xs i v =
     (if i < length xs then xs[i := v]
      else xs @ replicate (i - length xs) Undefined @ [v])"

definition tRNS_setTransparency :: "tRNS \<Rightarrow> jsval \<Rightarrow> int \<Rightarrow> tRNS" where
  "tRNS_setTransparency t v index =
     (if 0 \<le> index
      then t\<lparr>t_transparencies := array_store (t_transparencies t) (nat index) v\<rparr>
      else t\<lparr>t_transparencies := List.insert v (t_transparencies t)\<rparr>)"

fun tRNS_getValueOf :: "tRNS \<Rightarrow> jsval \<Rightarrow> jsval" where
  "tRNS_getValueOf t (Num n) =
     (if 0 \<le> n \<and> n < int (length (t_transparencies t))
      then t_transparencies t ! nat n else Undefined)"
| "tRNS_getValueOf t _ = Undefined"

definition tRNS_getTransparencies :: "tRNS \<Rightarrow> jsval list" where
  "tRNS_getTransparencies t = t_transparencies t"

definition tRNS_isTransparencySet :: "tRNS \<Rightarrow> int list \<Rightarrow> bool" where
  "tRNS_isTransparencySet t colorData = (Arr colorData \<in> set (t_transparencies t))"

definition tRNS_removeTransparency :: "tRNS \<Rightarrow> int list \<Rightarrow> tRNS" where
  "tRNS_removeTransparency t colorData =
     t\<lparr>t_transparencies := removeAll (Arr colorData) (t_transparencies t)\<rparr>"

definition tRNS_removeTransparencyOf :: "tRNS \<Rightarrow> int \<Rightarrow> tRNS" where
  "tRNS_removeTransparencyOf t index =
     (if 0 \<le> index \<and> index < int (length (t_transparencies t))
      then t\<lparr>t_transparencies := (t_transparencies t)[nat index := Undefined]\<rparr>
      else t)"

section \<open>The background chunk (bKGD)\<close>

text \<open>
  Modelled from the spec: \<open>determineBackgroundSamplesPerEntry\<close> of \<open>util/png-pixels\<close>,
  1 sample for grayscale and indexed images and 3 for the truecolour family. The method
  \<open>_determineNumberOfSamples\<close> of \<open>chunks/bkgd.js\<close> is the same table.
\<close>

fun determineBackgroundSamplesPerEntry :: "ColorType \<Rightarrow> nat" where
  "determineBackgroundSamplesPerEntry INDEXED = 1"
| "determineBackgroundSamplesPerEntry GRAYSCALE = 1"
| "determineBackgroundSamplesPerEntry GRAYSCALE_AND_ALPHA = 1"
| "determineBackgroundSamplesPerEntry _ = 3"

text \<open>
  Modelled from the spec: the framing sizes of the chunk base class. A chunk is a 4-byte
  length field, a 4-byte type, the payload and a 4-byte CRC; the data offset is the
  fixed offset past the length and type fields.
\<close>

definition CHUNK_LENGTH_SIZE :: nat where "CHUNK_LENGTH_SIZE = 4"
definition CHUNK_TYPE_SIZE :: nat where "CHUNK_TYPE_SIZE = 4"
definition CHUNK_CRC32_SIZE :: nat where "CHUNK_CRC32_SIZE = 4"

definition Chunk_calculateChunkLength :: nat where
  "Chunk_calculateChunkLength = CHUNK_LENGTH_SIZE + CHUNK_TYPE_SIZE + CHUNK_CRC32_SIZE"

definition calculateDataOffset :: nat where
  "calculateDataOffset = CHUNK_LENGTH_SIZE + CHUNK_TYPE_SIZE"

text \<open>
  The stored colour \<open>_backgroundColor\<close> is a \<open>Uint8ClampedArray\<close> with one entry per
  background sample. (The constructor in \<open>chunks/bkgd.js\<close> asks \<open>this._determineSamples\<close>
  for that size, a name the class does not define; its table is
  \<open>_determineNumberOfSamples\<close>.)
\<close>

record bKGD =
  b_colorType :: ColorType
  b_backgroundColor :: "nat list"

definition bKGD_new :: "ColorType \<Rightarrow> bKGD" where
  "bKGD_new ct =
     \<lparr>b_colorType = ct,
      b_backgroundColor = replicate (determineBackgroundSamplesPerEntry ct) 0\<rparr>"

definition bKGD_calculatePayloadSize :: "bKGD \<Rightarrow> nat" where
  "bKGD_calculatePayloadSize b =
     (if isIndexed (b_colorType b) then 1
      else determineBackgroundSamplesPerEntry (b_colorType b) * 2)"

definition bKGD_calculateChunkLength :: "bKGD \<Rightarrow> nat" where
  "bKGD_calculateChunkLength b = Chunk_calculateChunkLength + bKGD_calculatePayloadSize b"

definition bKGD_setBackgroundColor :: "bKGD \<Rightarrow> int list \<Rightarrow> error + bKGD" where
  "bKGD_setBackgroundColor b color =
     (let requiredSamples = determineBackgroundSamplesPerEntry (b_colorType b)
      in if length color \<noteq> requiredSamples then Inl SampleCountMismatch
         else Inr (b\<lparr>b_backgroundColor := write_samples (b_backgroundColor b) 0 color\<rparr>))"

definition bKGD_getBackgroundColor :: "bKGD \<Rightarrow> nat list" where
  "bKGD_getBackgroundColor b = b_backgroundColor b"

text \<open>
  \<open>abuf.subarray(a, b)\<close> on a typed array, for \<open>a \<le> b\<close>: the bounds are clamped to the
  length.
\<close>

definition subarray :: "int list \<Rightarrow> nat \<Rightarrow> nat \<Rightarrow> int list" where
  "subarray xs a b = take (b - a) (drop a xs)"

text \<open>
  The sample loop of \<open>load\<close>, in both versions of the chunk:
  \<^verbatim>\<open>for (let i = 0, offset = dataOffset; i < numberOfSamples; i++, offset += 2) {
    color.push(readUint16At(backgroundInfo, dataOffset, true)); }\<close>
  The read is the parameter \<open>rd\<close>, applied to an offset; the loop carries \<open>offset\<close> and
  passes \<open>dataOffset\<close> to the read, as the source does. A read that throws ends the loop
  with its error.
\<close>

function loadSamples ::
  "(nat \<Rightarrow> error + int) \<Rightarrow> nat \<Rightarrow> nat \<Rightarrow> nat \<Rightarrow> nat \<Rightarrow> int list \<Rightarrow> error + int list" where
  "loadSamples rd dataOffset numberOfSamples i offset color =
     (if i < numberOfSamples
      then (case rd dataOffset of
              Inl e \<Rightarrow> Inl e
            | Inr v \<Rightarrow> loadSamples rd dataOffset numberOfSamples (i + 1) (offset + 2) (color @ [v]))
      else Inr color)"
  by pat_completeness auto
termination
  by (relation "measure (\<lambda>(rd, dataOffset, numberOfSamples, i, offset, color). numberOfSamples - i)")
    auto

declare loadSamples.simps [simp del]

text \<open>
  \<open>load\<close> of the chunk that reads through the helpers of \<open>util/typed-array\<close>. The helpers
  \<open>readUint8At(bytes, offset)\<close> and \<open>readUint16At(bytes, offset, bigEndian)\<close> are not under
  \<open>src/\<close>; they are the parameters \<open>readUint8At\<close> and \<open>readUint16At\<close>, and may throw.
\<close>

definition bKGD_load ::
  "(int list \<Rightarrow> nat \<Rightarrow> error + int) \<Rightarrow> (int list \<Rightarrow> nat \<Rightarrow> bool \<Rightarrow> error + int)
   \<Rightarrow> bKGD \<Rightarrow> int list \<Rightarrow> error + bKGD" where
  "bKGD_load readUint8At readUint16At b abuf =
     (let backgroundInfo =
            subarray abuf calculateDataOffset (calculateDataOffset + bKGD_calculatePayloadSize b);
          dataOffset = calculateDataOffset;
          color =
            (if isIndexed (b_colorType b)
             then (case readUint8At backgroundInfo dataOffset of
                     Inl e \<Rightarrow> Inl e | Inr v \<Rightarrow> Inr [v])
             else loadSamples (\<lambda>off. readUint16At backgroundInfo off True) dataOffset
                    (determineBackgroundSamplesPerEntry (b_colorType b)) 0 dataOffset [])
      in case color of Inl e \<Rightarrow> Inl e | Inr c \<Rightarrow> bKGD_setBackgroundColor b c)"

text \<open>
  \<open>load\<close> of the chunk in \<open>chunks/bkgd.js\<close>, which reads from the chunk's own byte buffer
  after \<open>initialize(chunkLength)\<close> and \<open>buffer.copyInto(abuf, chunkLength)\<close>. The buffer
  class is not under \<open>src/\<close>: \<open>bufReadUint8At abuf chunkLength off\<close> and
  \<open>bufReadUint16At abuf chunkLength off\<close> stand for what \<open>this.buffer.readUint8At(off)\<close>
  and \<open>this.buffer.readUint16At(off)\<close> return after those two calls.
\<close>

definition bKGD_load_buffered ::
  "(int list \<Rightarrow> nat \<Rightarrow> nat \<Rightarrow> error + int) \<Rightarrow> (int list \<Rightarrow> nat \<Rightarrow> nat \<Rightarrow> error + int)
   \<Rightarrow> bKGD \<Rightarrow> int list \<Rightarrow> error + bKGD" where
  "bKGD_load_buffered bufReadUint8At bufReadUint16At b abuf =
     (let chunkLength = bKGD_calculateChunkLength b;
          dataOffset = calculateDataOffset;
          color =
            (if b_colorType b = INDEXED
             then (case bufReadUint8At abuf chunkLength dataOffset of
                     Inl e \<Rightarrow> Inl e | Inr v \<Rightarrow> Inr [v])
             else loadSamples (\<lambda>off. bufReadUint16At abuf chunkLength off) dataOffset
                    (determineBackgroundSamplesPerEntry (b_colorType b)) 0 dataOffset [])
      in case color of Inl e \<Rightarrow> Inl e | Inr c \<Rightarrow> bKGD_setBackgroundColor b c)"

section \<open>The image document (RnPng)\<close>

text \<open>
  The document keeps its metadata and its chunks in per-instance private maps. Here it
  is one record: the metadata fields, the header chunk's copy of them, the pixel-data
  chunk, and one optional slot for each of the palette, transparency and background
  chunks (\<open>None\<close> when the key is absent from the chunk map). The signature and
  end-marker chunks hold no state.
\<close>

record IHDR =
  h_width :: nat
  h_height :: nat
  h_depth :: nat
  h_colorType :: ColorType
  h_compression :: nat
  h_filter :: nat
  h_interlace :: nat

record RnPng =
  png_width :: nat
  png_height :: nat
  png_depth :: nat
  png_colorType :: ColorType
  png_compression :: nat
  png_filter :: nat
  png_interlace :: nat
  chunk_IHDR :: IHDR
  chunk_IDAT :: IDAT
  chunk_PLTE :: "PLTE option"
  chunk_tRNS :: "tRNS option"
  chunk_bKGD :: "bKGD option"

text \<open>
  Modelled from the spec: the constants of \<open>util/constants\<close>. The bit depths the format
  knows are 1, 2, 4, 8 and 16; the colour types have the five canonical codes of the
  format; the default compression, filter and interlace methods are the only ones the
  library writes.
\<close>

definition BitDepths :: "nat list" where
  "BitDepths = [1, 2, 4, 8, 16]"

definition BitDepths_EIGHT :: nat where
  "BitDepths_EIGHT = 8"

fun colorTypeCode :: "ColorType \<Rightarrow> nat" where
  "colorTypeCode GRAYSCALE = 0"
| "colorTypeCode TRUECOLOR = 2"
| "colorTypeCode INDEXED = 3"
| "colorTypeCode GRAYSCALE_AND_ALPHA = 4"
| "colorTypeCode TRUECOLOR_AND_ALPHA = 6"

definition DEFAULT_COMPRESSION :: nat where "DEFAULT_COMPRESSION = 0"
definition DEFAULT_FILTER :: nat where "DEFAULT_FILTER = 0"
definition DEFAULT_INTERLACE :: nat where "DEFAULT_INTERLACE = 0"

text \<open>
  \<open>_applyMetaData\<close>: the depth must be one of the known bit depths and at most eight.
  The colour type check of the source cannot fail on a value of the datatype.
\<close>

definition applyMetaData :: "IHDR \<Rightarrow> RnPng \<Rightarrow> error + RnPng" where
  "applyMetaData metaData ctxt =
     (if h_depth metaData \<notin> set BitDepths then Inl InvalidMetadata
      else if h_depth metaData > BitDepths_EIGHT then Inl InvalidMetadata
      else Inr (ctxt\<lparr>png_width := h_width metaData, png_height := h_height metaData,
                     png_depth := h_depth metaData, png_colorType := h_colorType metaData,
                     png_compression := h_compression metaData,
                     png_filter := h_filter metaData,
                     png_interlace := h_interlace metaData\<rparr>))"

definition getMetaData :: "RnPng \<Rightarrow> IHDR" where
  "getMetaData d =
     \<lparr>h_width = png_width d, h_height = png_height d, h_depth = png_depth d,
      h_colorType = png_colorType d, h_compression = png_compression d,
      h_filter = png_filter d, h_interlace = png_interlace d\<rparr>"

text \<open>
  The constructor. Each option is read as \<open>options.x || default\<close>, so an option that is
  absent or falsy (the number 0) takes the default: a depth of 0 becomes 8, and colour
  type 0 becomes the indexed colour type. \<open>_initializeChunks\<close> builds the header and
  pixel-data chunks from the metadata, and an empty palette chunk for an indexed image.
  The codec option is left out of the record: the codec is a parameter of the load path.
\<close>

record options =
  o_width :: "nat option"
  o_height :: "nat option"
  o_depth :: "nat option"
  o_colorType :: "ColorType option"

definition initializeChunks :: "IHDR \<Rightarrow> RnPng \<Rightarrow> RnPng" where
  "initializeChunks metaData ctxt =
     (let numberOfPixels = computeNumberOfPixels (h_width metaData) (h_height metaData);
          maxNumberOfColors = computeMaxNumberOfColors (h_depth metaData)
      in ctxt\<lparr>chunk_IHDR := metaData,
              chunk_IDAT := IDAT_new (h_width metaData) (h_height metaData) (h_depth metaData)
                              (h_colorType metaData) numberOfPixels,
              chunk_PLTE := (if isIndexed (h_colorType metaData)
                             then Some (PLTE_new maxNumberOfColors) else None),
              chunk_tRNS := None,
              chunk_bKGD := None\<rparr>)"

definition RnPng_new :: "options \<Rightarrow> error + RnPng" where
  "RnPng_new opts =
     (let width = (case o_width opts of None \<Rightarrow> 0 | Some w \<Rightarrow> w);
          height = (case o_height opts of None \<Rightarrow> 0 | Some h \<Rightarrow> h);
          depth = (case o_depth opts of None \<Rightarrow> BitDepths_EIGHT
                   | Some d \<Rightarrow> if d = 0 then BitDepths_EIGHT else d);
          colorType = (case o_colorType opts of None \<Rightarrow> INDEXED
                       | Some ct \<Rightarrow> if colorTypeCode ct = 0 then INDEXED else ct);
          metaData = \<lparr>h_width = width, h_height = height, h_depth = depth,
                      h_colorType = colorType, h_compression = DEFAULT_COMPRESSION,
                      h_filter = DEFAULT_FILTER, h_interlace = DEFAULT_INTERLACE\<rparr>;
          blank = \<lparr>png_width = 0, png_height = 0, png_depth = 0, png_colorType = colorType,
                   png_compression = 0, png_filter = 0, png_interlace = 0,
                   chunk_IHDR = metaData,
                   chunk_IDAT = IDAT_new 0 0 0 colorType 0,
                   chunk_PLTE = None, chunk_tRNS = None, chunk_bKGD = None\<rparr>
      in case applyMetaData metaData blank of
           Inl e \<Rightarrow> Inl e
         | Inr ctxt \<Rightarrow> Inr (initializeChunks (getMetaData ctxt) ctxt))"

definition doesContainPLTE :: "RnPng \<Rightarrow> bool" where
  "doesContainPLTE d = (chunk_PLTE d \<noteq> None)"

definition doesContainTRNS :: "RnPng \<Rightarrow> bool" where
  "doesContainTRNS d = (chunk_tRNS d \<noteq> None)"

definition doesContainBKGD :: "RnPng \<Rightarrow> bool" where
  "doesContainBKGD d = (chunk_bKGD d \<noteq> None)"

definition translateXyToIndex :: "RnPng \<Rightarrow> nat \<Rightarrow> nat \<Rightarrow> nat" where
  "translateXyToIndex d x y =
     (let pixelColorSize = determinePixelColorSize (png_colorType d);
          fullPixelSize = pixelColorSize + (if hasAlphaSample (png_colorType d) then 1 else 0)
      in y * (png_width d * fullPixelSize) + x * fullPixelSize)"

text \<open>
  A position is a linear index or an array \<open>[x, y]\<close>:
  \<^verbatim>\<open>if (Array.isArray(pos) && pos.length === 2) index = _translateXyToIndex(this, ...pos);
  else index = pos;\<close>
\<close>

datatype position = Index nat | XY nat nat

fun resolveIndex :: "RnPng \<Rightarrow> position \<Rightarrow> nat" where
  "resolveIndex d (XY x y) = translateXyToIndex d x y"
| "resolveIndex d (Index i) = i"

definition hasAlphaChannel :: "RnPng \<Rightarrow> bool" where
  "hasAlphaChannel d = hasAlphaSample (png_colorType d)"

definition RnPng_isIndexed :: "RnPng \<Rightarrow> bool" where
  "RnPng_isIndexed d = isIndexed (png_colorType d)"

text \<open>
  The comparison \<open>value >= n\<close> of JavaScript on a value read from the chunks:
  \<open>undefined\<close> compares false; an array is compared through its only element, and is
  not a number when it has several.
\<close>

fun js_ge :: "jsval \<Rightarrow> int \<Rightarrow> bool" where
  "js_ge (Num v) n = (v \<ge> n)"
| "js_ge Undefined n = False"
| "js_ge (Arr []) n = (0 \<ge> n)"
| "js_ge (Arr [v]) n = (v \<ge> n)"
| "js_ge (Arr _) n = False"

definition getPalette :: "RnPng \<Rightarrow> error + int list list" where
  "getPalette d =
     (case chunk_PLTE d of None \<Rightarrow> Inl NoPalette | Some p \<Rightarrow> Inr (PLTE_getPalette p))"

definition getPaletteIndexAt :: "RnPng \<Rightarrow> position \<Rightarrow> error + jsval" where
  "getPaletteIndexAt d pos =
     (if \<not> doesContainPLTE d then Inl NoPalette
      else let index = resolveIndex d pos;
               paletteIndex = IDAT_getValueAt (chunk_IDAT d) index
           in case getPalette d of
                Inl e \<Rightarrow> Inl e
              | Inr palette \<Rightarrow>
                  if js_ge paletteIndex (int (length palette)) then Inl IndexOutOfRange
                  else Inr paletteIndex)"

definition getPaletteColorAt :: "RnPng \<Rightarrow> position \<Rightarrow> error + jsval" where
  "getPaletteColorAt d pos =
     (if \<not> doesContainPLTE d then Inl NoPalette
      else case getPaletteIndexAt d pos of
             Inl e \<Rightarrow> Inl e
           | Inr paletteIndex \<Rightarrow>
               (case chunk_PLTE d of
                  None \<Rightarrow> Inl TypeError
                | Some p \<Rightarrow> PLTE_getColorOf p paletteIndex))"

definition doesColorExistInTransparencies :: "RnPng \<Rightarrow> int list \<Rightarrow> bool" where
  "doesColorExistInTransparencies d colorData =
     (case chunk_tRNS d of None \<Rightarrow> False | Some t \<Rightarrow> tRNS_isTransparencySet t colorData)"

definition getBackground :: "RnPng \<Rightarrow> nat list option" where
  "getBackground d =
     (case chunk_bKGD d of None \<Rightarrow> None | Some b \<Rightarrow> Some (bKGD_getBackgroundColor b))"

text \<open>
  \<open>pixel.concat(v)\<close> on the value \<open>getColorOf\<close> returned: an array grows by the sample
  \<open>v\<close> (by its elements when \<open>v\<close> is an array), and the call is a \<open>TypeError\<close> on
  \<open>undefined\<close> or a number, which have no such method. The document never passes
  \<open>undefined\<close> as \<open>v\<close>.
\<close>

fun js_concat :: "jsval \<Rightarrow> jsval \<Rightarrow> error + jsval" where
  "js_concat (Arr xs) (Num v) = Inr (Arr (xs @ [v]))"
| "js_concat (Arr xs) (Arr ys) = Inr (Arr (xs @ ys))"
| "js_concat _ _ = Inl TypeError"

definition getPixelAt :: "RnPng \<Rightarrow> position \<Rightarrow> error + jsval" where
  "getPixelAt d pos =
     (let index = resolveIndex d pos
      in if hasAlphaChannel d then Inr (IDAT_getPixelOf (chunk_IDAT d) index)
         else let pixel = IDAT_getPixelOf (chunk_IDAT d) index
              in if RnPng_isIndexed d
                 then (case chunk_PLTE d of
                         None \<Rightarrow> Inl TypeError
                       | Some p \<Rightarrow>
                           (case PLTE_getColorOf p pixel of
                              Inl e \<Rightarrow> Inl e
                            | Inr color \<Rightarrow>
                                (case chunk_tRNS d of
                                   None \<Rightarrow> Inr color
                                 | Some t \<Rightarrow>
                                     (let opacity = tRNS_getValueOf t pixel
                                      in js_concat color
                                           (if opacity = Undefined then Num 255 else opacity)))))
                 else Inr pixel)"

text \<open>
  \<open>setTransparency(value, index = -1)\<close> creates the transparency chunk when the slot is
  empty, then delegates.
\<close>

definition setTransparency :: "RnPng \<Rightarrow> jsval \<Rightarrow> int \<Rightarrow> RnPng" where
  "setTransparency d v index =
     (let t = (case chunk_tRNS d of
                 None \<Rightarrow> tRNS_new (png_colorType d)
                           (computeNumberOfPixels (png_width d) (png_height d))
                           (computeMaxNumberOfColors (png_depth d))
               | Some t \<Rightarrow> t)
      in d\<lparr>chunk_tRNS := Some (tRNS_setTransparency t v index)\<rparr>)"

text \<open>
  Modelled from the spec: \<open>getPaletteIndexOf\<close> of the palette chunk, which
  \<open>removeTransparency\<close> calls on an indexed image; it is the linear search of
  \<open>getPaletteIndex\<close>.
\<close>

definition PLTE_getPaletteIndexOf :: "PLTE \<Rightarrow> int list \<Rightarrow> int" where
  "PLTE_getPaletteIndexOf p color = PLTE_getPaletteIndex p color"

definition removeTransparency :: "RnPng \<Rightarrow> int list \<Rightarrow> error + RnPng" where
  "removeTransparency d colorData =
     (case chunk_tRNS d of
        None \<Rightarrow> Inl NoTransparency
      | Some t \<Rightarrow>
          if RnPng_isIndexed d
          then (case chunk_PLTE d of
                  None \<Rightarrow> Inl TypeError
                | Some p \<Rightarrow>
                    Inr (d\<lparr>chunk_tRNS :=
                            Some (tRNS_removeTransparencyOf t (PLTE_getPaletteIndexOf p colorData))\<rparr>))
          else Inr (d\<lparr>chunk_tRNS := Some (tRNS_removeTransparency t colorData)\<rparr>))"

text \<open>
  The pixel argument of \<open>setPixelAt\<close> is a number or an array of numbers:
  \<^verbatim>\<open>if (!Array.isArray(data)) { data = [data]; }\<close>
\<close>

datatype samples = Sample int | Samples "int list"

fun toArray :: "samples \<Rightarrow> int list" where
  "toArray (Sample v) = [v]"
| "toArray (Samples vs) = vs"

definition requiredSamples :: "RnPng \<Rightarrow> nat" where
  "requiredSamples d =
     (if RnPng_isIndexed d then 3 else determineFullPixelSize (png_colorType d))"

definition setPixelAt :: "RnPng \<Rightarrow> position \<Rightarrow> samples \<Rightarrow> error + RnPng" where
  "setPixelAt d pos data0 =
     (let index = resolveIndex d pos;
          data1 = toArray data0;
          fullPixelSize = requiredSamples d
      in if length data1 < fullPixelSize then Inl (InsufficientSamples fullPixelSize)
         else if hasAlphaChannel d
         then Inr (d\<lparr>chunk_IDAT :=
                       IDAT_setPixelOf (chunk_IDAT d) index (Arr (take fullPixelSize data1))\<rparr>)
         else
           let data2 = take (fullPixelSize + 1) data1;
               colorData = take fullPixelSize data2;
               opacityData = (if length data2 > fullPixelSize then Some (last data2) else None)
           in if RnPng_isIndexed d
              then (case chunk_PLTE d of
                      None \<Rightarrow> Inl TypeError
                    | Some p \<Rightarrow>
                        (case (if PLTE_isColorInPalette p colorData
                               then Inr (p, PLTE_getPaletteIndex p colorData)
                               else PLTE_addColor p colorData) of
                           Inl e \<Rightarrow> Inl e
                         | Inr (p', paletteIndex) \<Rightarrow>
                             (let d1 = d\<lparr>chunk_PLTE := Some p',
                                         chunk_IDAT := IDAT_setPixelOf (chunk_IDAT d) index
                                                         (Num paletteIndex)\<rparr>
                              in case opacityData of
                                   None \<Rightarrow> Inr d1
                                 | Some opacity \<Rightarrow>
                                     Inr (setTransparency d1 (Num opacity) paletteIndex))))
              else
                (let d1 = d\<lparr>chunk_IDAT :=
                              IDAT_setPixelOf (chunk_IDAT d) index (Arr colorData)\<rparr>
                 in case opacityData of
                      None \<Rightarrow> Inr d1
                    | Some opacity \<Rightarrow>
                        if 255 = opacity \<and> doesColorExistInTransparencies d1 colorData
                        then removeTransparency d1 colorData
                        else Inr (setTransparency d1 (Arr colorData) (-1))))"

text \<open>
  \<open>setBackground\<close>: with a palette and no background chunk, the colour goes to palette
  entry 0 and the method returns; otherwise the background chunk is created when absent
  and takes the colour. (When \<open>setBackgroundColor\<close> throws, the result is the error.)
\<close>

definition setBackground :: "RnPng \<Rightarrow> int list \<Rightarrow> error + RnPng" where
  "setBackground d colorData =
     (if doesContainPLTE d \<and> \<not> doesContainBKGD d
      then (case chunk_PLTE d of
              None \<Rightarrow> Inl TypeError
            | Some p \<Rightarrow> Inr (d\<lparr>chunk_PLTE := Some (PLTE_setColorOf p 0 colorData)\<rparr>))
      else
        (let d1 = (if \<not> doesContainBKGD d
                   then d\<lparr>chunk_bKGD := Some (bKGD_new (png_colorType d))\<rparr> else d)
         in case chunk_bKGD d1 of
              None \<Rightarrow> Inl TypeError
            | Some b \<Rightarrow>
                (case bKGD_setBackgroundColor b colorData of
                   Inl e \<Rightarrow> Inl e
                 | Inr b' \<Rightarrow> Inr (d1\<lparr>chunk_bKGD := Some b'\<rparr>))))"

text \<open>
  The pixel-data chunk carries the layout of the document's colour type. The constructor
  and the load path both establish this: each configures the chunk through
  \<open>applyLayoutInformation\<close> with the document's own colour type.
\<close>

definition layoutApplied :: "RnPng \<Rightarrow> bool" where
  "layoutApplied d =
     (i_pixelColorSize (chunk_IDAT d) = determinePixelColorSize (png_colorType d)
      \<and> i_hasAlphaSample (chunk_IDAT d) = determineHasAlphaSample (png_colorType d))"

section \<open>Example documents\<close>

text \<open>
  A fresh 1-by-1 indexed document of depth 8, and the same document after
  \<open>setPixelAt([0, 0], [10, 20, 30])\<close>.
\<close>

definition indexed_options :: options where
  "indexed_options =
     \<lparr>o_width = Some 1, o_height = Some 1, o_depth = Some 8, o_colorType = Some INDEXED\<rparr>"

definition fresh_indexed :: RnPng where
  "fresh_indexed =
     \<lparr>png_width = 1, png_height = 1, png_depth = 8, png_colorType = INDEXED,
      png_compression = 0, png_filter = 0, png_interlace = 0,
      chunk_IHDR = \<lparr>h_width = 1, h_height = 1, h_depth = 8, h_colorType = INDEXED,
                    h_compression = 0, h_filter = 0, h_interlace = 0\<rparr>,
      chunk_IDAT = \<lparr>i_width = 1, i_height = 1, i_depth = 8, i_colorType = INDEXED,
                    i_numberOfPixels = 1, i_pixelColorSize = 1, i_hasAlphaSample = False,
                    i_pixelData = [0, 0]\<rparr>,
      chunk_PLTE = Some \<lparr>p_palette = [], p_maxNumberOfColors = 256\<rparr>,
      chunk_tRNS = None, chunk_bKGD = None\<rparr>"

definition painted_indexed :: RnPng where
  "painted_indexed =
     fresh_indexed\<lparr>chunk_PLTE := Some \<lparr>p_palette = [[10, 20, 30]], p_maxNumberOfColors = 256\<rparr>\<rparr>"

text \<open>A fresh 1-by-1 truecolour document of depth 8.\<close>

definition truecolor_options :: options where
  "truecolor_options =
     \<lparr>o_width = Some 1, o_height = Some 1, o_depth = Some 8, o_colorType = Some TRUECOLOR\<rparr>"

definition fresh_truecolor :: RnPng where
  "fresh_truecolor =
     \<lparr>png_width = 1, png_height = 1, png_depth = 8, png_colorType = TRUECOLOR,
      png_compression = 0, png_filter = 0, png_interlace = 0,
      chunk_IHDR = \<lparr>h_width = 1, h_height = 1, h_depth = 8, h_colorType = TRUECOLOR,
                    h_compression = 0, h_filter = 0, h_interlace = 0\<rparr>,
      chunk_IDAT = \<lparr>i_width = 1, i_height = 1, i_depth = 8, i_colorType = TRUECOLOR,
                    i_numberOfPixels = 1, i_pixelColorSize = 3, i_hasAlphaSample = False,
                    i_pixelData = [0, 0, 0, 0]\<rparr>,
      chunk_PLTE = None, chunk_tRNS = None, chunk_bKGD = None\<rparr>"

text \<open>
  The truecolour document after \<open>setPixelAt([0, 0], [1, 2, 3, 0])\<close>: the colour is
  written and registered as a colour key.
\<close>

definition keyed_truecolor :: RnPng where
  "keyed_truecolor =
     fresh_truecolor
       \<lparr>chunk_IDAT := (chunk_IDAT fresh_truecolor)\<lparr>i_pixelData := [1, 2, 3, 0]\<rparr>,
        chunk_tRNS := Some \<lparr>t_colorType = TRUECOLOR, t_numberOfPixels = 1,
                            t_maxNumberOfColors = 256, t_transparencies = [Arr [1, 2, 3]]\<rparr>\<rparr>"

section \<open>Loading a document from bytes\<close>

text \<open>
  Modelled from the spec: the constants \<open>SupportedChunks\<close> and \<open>ChunkHeaderSequences\<close> of
  \<open>util/constants\<close>, and \<open>indexOfSequence\<close> of \<open>util/typed-array\<close>. The chunks are
  written in the canonical order (header, palette, transparency and background, pixel
  data, end marker); the header sequence of a chunk type is the four bytes of its name;
  \<open>indexOfSequence(bytes, sequence, start)\<close> is the first index at or after \<open>start\<close> where
  the sequence occurs, or \<open>-1\<close>.
\<close>

definition SupportedChunks :: "string list" where
  "SupportedChunks = [''IHDR'', ''PLTE'', ''tRNS'', ''bKGD'', ''IDAT'', ''IEND'']"

definition ChunkHeaderSequences :: "string \<Rightarrow> int list" where
  "ChunkHeaderSequences h =
     (if h = ''IHDR'' then [73, 72, 68, 82]
      else if h = ''PLTE'' then [80, 76, 84, 69]
      else if h = ''tRNS'' then [116, 82, 78, 83]
      else if h = ''bKGD'' then [98, 75, 71, 68]
      else if h = ''IDAT'' then [73, 68, 65, 84]
      else if h = ''IEND'' then [73, 69, 78, 68]
      else [])"

definition PNG_SIGNATURE :: "int list" where
  "PNG_SIGNATURE = [137, 80, 78, 71, 13, 10, 26, 10]"

fun indexOfSequenceFrom :: "int list \<Rightarrow> int list \<Rightarrow> nat \<Rightarrow> int" where
  "indexOfSequenceFrom [] s i = -1"
| "indexOfSequenceFrom (x # xs) s i =
     (if take (length s) (x # xs) = s then int i else indexOfSequenceFrom xs s (Suc i))"

definition indexOfSequence :: "int list \<Rightarrow> int list \<Rightarrow> nat \<Rightarrow> int" where
  "indexOfSequence bytes s start = indexOfSequenceFrom (drop start bytes) s start"

text \<open>
  \<open>verify\<close> of the pixel-data chunk, and, modelled from the spec, of the signature,
  header and end-marker chunks: the chunk's sequence occurs in the bytes.
\<close>

definition IDAT_verify :: "int list \<Rightarrow> bool" where
  "IDAT_verify bufView = (indexOfSequence bufView (ChunkHeaderSequences ''IDAT'') 0 \<noteq> -1)"

definition IHDR_verify :: "int list \<Rightarrow> bool" where
  "IHDR_verify bufView = (indexOfSequence bufView (ChunkHeaderSequences ''IHDR'') 0 \<noteq> -1)"

definition IEND_verify :: "int list \<Rightarrow> bool" where
  "IEND_verify bufView = (indexOfSequence bufView (ChunkHeaderSequences ''IEND'') 0 \<noteq> -1)"

definition Prefix_verify :: "int list \<Rightarrow> bool" where
  "Prefix_verify bufView = (indexOfSequence bufView PNG_SIGNATURE 0 \<noteq> -1)"

text \<open>
  The parts of the load path that are not under \<open>src/\<close> are parameters: the \<open>load\<close>
  methods of the header, palette and transparency chunks, the read helpers of the
  background chunk, the injected codec's \<open>inflate\<close>, and the helpers \<open>defilter\<close>,
  \<open>removeFilterFields\<close>, \<open>determineDataRowLength\<close> and \<open>unpackByteData\<close> of the
  pixel-data chunk. A \<open>load\<close> method or \<open>inflate\<close> may throw.
\<close>

record loaders =
  l_IHDR_load :: "IHDR \<Rightarrow> int list \<Rightarrow> error + IHDR"
  l_PLTE_load :: "PLTE \<Rightarrow> int list \<Rightarrow> error + PLTE"
  l_tRNS_load :: "tRNS \<Rightarrow> int list \<Rightarrow> error + tRNS"
  l_readUint8At :: "int list \<Rightarrow> nat \<Rightarrow> error + int"
  l_readUint16At :: "int list \<Rightarrow> nat \<Rightarrow> bool \<Rightarrow> error + int"
  l_inflate :: "int list \<Rightarrow> error + int list"
  l_defilter :: "int list \<Rightarrow> nat \<Rightarrow> nat \<Rightarrow> int list"
  l_removeFilterFields :: "int list \<Rightarrow> nat \<Rightarrow> nat \<Rightarrow> int list"
  l_determineDataRowLength :: "nat \<Rightarrow> ColorType \<Rightarrow> nat \<Rightarrow> nat"
  l_unpackByteData :: "int list \<Rightarrow> nat \<Rightarrow> int list"

text \<open>
  \<open>load\<close> of the pixel-data chunk. The compressed data is \<open>abuf.subarray(dataOffset)\<close>:
  everything from the data offset to the end of the bytes it is given. \<open>defilter\<close> works
  in place, for depth 8 and a colour type other than indexed; the filter bytes are then
  removed and the samples unpacked, each result stored in a \<open>Uint8ClampedArray\<close>.
\<close>

definition IDAT_load :: "loaders \<Rightarrow> IDAT \<Rightarrow> int list \<Rightarrow> error + IDAT" where
  "IDAT_load L c abuf =
     (let dataOffset = calculateDataOffset;
          compressedZlibData = drop dataOffset abuf
      in case l_inflate L compressedZlibData of
           Inl e \<Rightarrow> Inl e
         | Inr uncompressedData \<Rightarrow>
             (let fullPixelSize = i_pixelColorSize c + (if i_hasAlphaSample c then 1 else 0);
                  defiltered =
                    (if i_depth c \<ge> BitDepths_EIGHT \<and> INDEXED \<noteq> i_colorType c
                     then l_defilter L uncompressedData (i_width c) fullPixelSize
                     else uncompressedData);
                  pixelOnlyData =
                    map clamp8
                      (l_removeFilterFields L defiltered
                         (l_determineDataRowLength L (i_depth c) (i_colorType c) (i_width c))
                         (i_height c))
              in Inr (c\<lparr>i_pixelData :=
                          map clamp8 (l_unpackByteData L (map int pixelOnlyData) (i_depth c))\<rparr>)))"

text \<open>
  \<open>_loadChunk\<close>: the header chunk parses itself and its metadata become the document's;
  a transparency, palette or background chunk is created and parses itself; the
  pixel-data chunk takes the document's layout and parses itself. Any other chunk type
  is ignored.
\<close>

definition loadChunk :: "loaders \<Rightarrow> RnPng \<Rightarrow> string \<Rightarrow> int list \<Rightarrow> error + RnPng" where
  "loadChunk L ctxt chunkHeader bufView =
     (if chunkHeader = ''IHDR''
      then (case l_IHDR_load L (chunk_IHDR ctxt) bufView of
              Inl e \<Rightarrow> Inl e
            | Inr chunk \<Rightarrow> applyMetaData chunk (ctxt\<lparr>chunk_IHDR := chunk\<rparr>))
      else if chunkHeader = ''tRNS''
      then (case l_tRNS_load L
                   (tRNS_new (png_colorType ctxt)
                      (computeNumberOfPixels (png_width ctxt) (png_height ctxt))
                      (computeMaxNumberOfColors (png_depth ctxt))) bufView of
              Inl e \<Rightarrow> Inl e
            | Inr chunk \<Rightarrow> Inr (ctxt\<lparr>chunk_tRNS := Some chunk\<rparr>))
      else if chunkHeader = ''PLTE''
      then (case l_PLTE_load L (PLTE_new (computeMaxNumberOfColors (png_depth ctxt))) bufView of
              Inl e \<Rightarrow> Inl e
            | Inr chunk \<Rightarrow> Inr (ctxt\<lparr>chunk_PLTE := Some chunk\<rparr>))
      else if chunkHeader = ''bKGD''
      then (case bKGD_load (l_readUint8At L) (l_readUint16At L)
                   (bKGD_new (png_colorType ctxt)) bufView of
              Inl e \<Rightarrow> Inl e
            | Inr chunk \<Rightarrow> Inr (ctxt\<lparr>chunk_bKGD := Some chunk\<rparr>))
      else if chunkHeader = ''IDAT''
      then (case IDAT_load L
                   (applyLayoutInformation (png_width ctxt) (png_height ctxt) (png_depth ctxt)
                      (png_colorType ctxt)
                      (computeNumberOfPixels (png_width ctxt) (png_height ctxt))
                      (chunk_IDAT ctxt)) bufView of
              Inl e \<Rightarrow> Inl e
            | Inr chunk \<Rightarrow> Inr (ctxt\<lparr>chunk_IDAT := chunk\<rparr>))
      else Inr ctxt)"

text \<open>
  \<open>bufView.subarray(begin)\<close>: a negative \<open>begin\<close> counts from the end of the array.
\<close>

definition subarrayFrom :: "int list \<Rightarrow> int \<Rightarrow> int list" where
  "subarrayFrom xs begin =
     (if begin < 0 then drop (nat (int (length xs) + begin)) xs else drop (nat begin) xs)"

text \<open>
  The loop of \<open>from\<close> over \<open>SupportedChunks\<close>:
  \<^verbatim>\<open>let tmpHeaderIndex = indexOfSequence(bufView, ChunkHeaderSequences[chunkHeader], startIndex);
  if (-1 === tmpHeaderIndex) { return; }
  chunkHeaderIndex = tmpHeaderIndex;
  startIndex = chunkHeaderIndex + 4;
  _loadChunk(this, chunkHeader, bufView.subarray(chunkHeaderIndex - CHUNK_LENGTH_SIZE));\<close>
  The end marker is skipped; a chunk type that is not found is skipped and leaves
  \<open>startIndex\<close> as it is. The loop state is \<open>startIndex\<close> and the document.
\<close>

fun loadSupportedChunks ::
  "loaders \<Rightarrow> int list \<Rightarrow> string list \<Rightarrow> nat \<Rightarrow> RnPng \<Rightarrow> error + RnPng" where
  "loadSupportedChunks L bufView [] startIndex ctxt = Inr ctxt"
| "loadSupportedChunks L bufView (chunkHeader # rest) startIndex ctxt =
     (if chunkHeader = ''IEND'' then loadSupportedChunks L bufView rest startIndex ctxt
      else
        (let tmpHeaderIndex =
               indexOfSequence bufView (ChunkHeaderSequences chunkHeader) startIndex
         in if -1 = tmpHeaderIndex then loadSupportedChunks L bufView rest startIndex ctxt
            else (case loadChunk L ctxt chunkHeader
                         (subarrayFrom bufView (tmpHeaderIndex - int CHUNK_LENGTH_SIZE)) of
                    Inl e \<Rightarrow> Inl e
                  | Inr ctxt' \<Rightarrow>
                      loadSupportedChunks L bufView rest (nat tmpHeaderIndex + 4) ctxt')))"

text \<open>
  \<open>from(bufView)\<close>: the four structural checks, the removal of the palette chunk that the
  constructor may have created, and the loop.
\<close>

definition RnPng_from :: "loaders \<Rightarrow> RnPng \<Rightarrow> int list \<Rightarrow> error + RnPng" where
  "RnPng_from L d bufView =
     (if \<not> Prefix_verify bufView \<or> \<not> IHDR_verify bufView
         \<or> \<not> IDAT_verify bufView \<or> \<not> IEND_verify bufView
      then Inl NotAPng
      else loadSupportedChunks L bufView SupportedChunks 0 (d\<lparr>chunk_PLTE := None\<rparr>))"

section \<open>The encode path of the pixel-data chunk\<close>

text \<open>
  \<open>update\<close> of the pixel-data chunk, up to the call of the codec: the raster is packed for
  the bit depth, a filter byte is put before every scanline, and the result is handed to
  \<open>deflate\<close>; each intermediate array is a \<open>Uint8ClampedArray\<close>. The helpers
  \<open>packByteData\<close>, \<open>addFilterFields\<close> and \<open>determineDataRowLength\<close> are not under \<open>src/\<close>
  and are parameters, as is the codec. The value is the compressed data that \<open>update\<close>
  copies into the chunk buffer after the length and type fields.
\<close>

record encoders =
  e_packByteData :: "nat list \<Rightarrow> nat \<Rightarrow> int list"
  e_addFilterFields :: "nat list \<Rightarrow> nat \<Rightarrow> nat \<Rightarrow> int list"
  e_determineDataRowLength :: "nat \<Rightarrow> ColorType \<Rightarrow> nat \<Rightarrow> nat"
  e_deflate :: "nat list \<Rightarrow> int list"

definition IDAT_update_compressed :: "encoders \<Rightarrow> IDAT \<Rightarrow> int list" where
  "IDAT_update_compressed E c =
     (let packedPixelData = map clamp8 (e_packByteData E (i_pixelData c) (i_depth c));
          pixelAndFilterData =
            map clamp8
              (e_addFilterFields E packedPixelData
                 (e_determineDataRowLength E (i_depth c) (i_colorType c) (i_width c))
                 (i_height c))
      in e_deflate E pixelAndFilterData)"

text \<open>
  Modelled from the spec: \<open>addFilterFields\<close>, which puts the filter type "None" (0) before
  each of the \<open>height\<close> scanlines of \<open>rowLength\<close> bytes.
\<close>

fun addFilterFields :: "nat list \<Rightarrow> nat \<Rightarrow> nat \<Rightarrow> int list" where
  "addFilterFields bytes rowLength 0 = []"
| "addFilterFields bytes rowLength (Suc h) =
     0 # map int (take rowLength bytes) @ addFilterFields (drop rowLength bytes) rowLength h"

text \<open>
  A codec that writes stored deflate blocks, the kind whose size \<open>calculatePayloadSize\<close>
  predicts: the 2-byte stream header, then for every block of at most 65535 bytes a
  5-byte header (last-block flag, length, one's-complement length, little-endian) and
  the bytes as they are, then the Adler-32 checksum of the data, big-endian.
\<close>

fun adler32_sums :: "nat list \<Rightarrow> nat \<Rightarrow> nat \<Rightarrow> nat \<times> nat" where
  "adler32_sums [] s1 s2 = (s1, s2)"
| "adler32_sums (x # xs) s1 s2 =
     adler32_sums xs ((s1 + x) mod 65521) ((s2 + (s1 + x) mod 65521) mod 65521)"

definition adler32 :: "nat list \<Rightarrow> int list" where
  "adler32 bytes =
     (case adler32_sums bytes 1 0 of
        (s1, s2) \<Rightarrow> [int (s2 div 256), int (s2 mod 256), int (s1 div 256), int (s1 mod 256)])"

fun stored_blocks :: "nat \<Rightarrow> nat list \<Rightarrow> int list" where
  "stored_blocks 0 bytes = []"
| "stored_blocks (Suc n) bytes =
     (let block = take 65535 bytes; len = length block
      in [if n = 0 then 1 else 0,
          int (len mod 256), int (len div 256),
          int ((65535 - len) mod 256), int ((65535 - len) div 256)]
         @ map int block @ stored_blocks n (drop 65535 bytes))"

definition stored_deflate :: "nat list \<Rightarrow> int list" where
  "stored_deflate bytes =
     [120, 1] @ stored_blocks ((65534 + length bytes) div 65535) bytes @ adler32 bytes"

text \<open>
  The encoders for depth 8: packing is a no-op there, and a scanline has one byte per
  sample.
\<close>

definition depth8_encoders :: encoders where
  "depth8_encoders =
     \<lparr>e_packByteData = (\<lambda>bytes depth. map int bytes),
      e_addFilterFields = addFilterFields,
      e_determineDataRowLength = (\<lambda>depth ct w. w * determineFullPixelSize ct),
      e_deflate = stored_deflate\<rparr>"

text \<open>
  A 2-by-1 truecolour image of depth 8 with the pixels (80, 76, 84) and (69, 0, 0), and
  its encoding, 75 bytes: the signature; the header chunk (length 13, type, the 13-byte
  payload, CRC); the pixel-data chunk (length 18, type, payload, CRC), whose payload is
  the 2-byte stream header, one stored deflate block (the kind \<open>calculatePayloadSize\<close>
  counts: a 5-byte block header, then the scanline with its filter byte 0) and the
  4-byte checksum; and the end marker (length 0, type, CRC). The four bytes 80, 76, 84,
  69 of the scanline are the sequence of the chunk type \<open>PLTE\<close>.
\<close>

definition plte_truecolor :: RnPng where
  "plte_truecolor =
     \<lparr>png_width = 2, png_height = 1, png_depth = 8, png_colorType = TRUECOLOR,
      png_compression = 0, png_filter = 0, png_interlace = 0,
      chunk_IHDR = \<lparr>h_width = 2, h_height = 1, h_depth = 8, h_colorType = TRUECOLOR,
                    h_compression = 0, h_filter = 0, h_interlace = 0\<rparr>,
      chunk_IDAT = \<lparr>i_width = 2, i_height = 1, i_depth = 8, i_colorType = TRUECOLOR,
                    i_numberOfPixels = 2, i_pixelColorSize = 3, i_hasAlphaSample = False,
                    i_pixelData = [80, 76, 84, 69, 0, 0, 0]\<rparr>,
      chunk_PLTE = None, chunk_tRNS = None, chunk_bKGD = None\<rparr>"

definition plte_truecolor_png :: "int list" where
  "plte_truecolor_png =
     PNG_SIGNATURE
     @ [0, 0, 0, 13] @ ChunkHeaderSequences ''IHDR''
       @ [0, 0, 0, 2, 0, 0, 0, 1, 8, 2, 0, 0, 0]
       @ [123, 64, 232, 221]
     @ [0, 0, 0, 18] @ ChunkHeaderSequences ''IDAT''
       @ ([120, 1] @ [1, 7, 0, 248, 255] @ [0, 80, 76, 84, 69, 0, 0] @ [5, 130, 1, 54])
       @ [146, 248, 6, 151]
     @ [0, 0, 0, 0] @ ChunkHeaderSequences ''IEND''
       @ [174, 66, 96, 130]"

text \<open>The document \<open>new RnPng()\<close> that \<open>from\<close> is called on.\<close>

definition default_options :: options where
  "default_options = \<lparr>o_width = None, o_height = None, o_depth = None, o_colorType = None\<rparr>"

definition fresh_default :: RnPng where
  "fresh_default =
     \<lparr>png_width = 0, png_height = 0, png_depth = 8, png_colorType = INDEXED,
      png_compression = 0, png_filter = 0, png_interlace = 0,
      chunk_IHDR = \<lparr>h_width = 0, h_height = 0, h_depth = 8, h_colorType = INDEXED,
                    h_compression = 0, h_filter = 0, h_interlace = 0\<rparr>,
      chunk_IDAT = \<lparr>i_width = 0, i_height = 0, i_depth = 8, i_colorType = INDEXED,
                    i_numberOfPixels = 0, i_pixelColorSize = 1, i_hasAlphaSample = False,
                    i_pixelData = []\<rparr>,
      chunk_PLTE = Some \<lparr>p_palette = [], p_maxNumberOfColors = 256\<rparr>,
      chunk_tRNS = None, chunk_bKGD = None\<rparr>"

text \<open>
  Modelled from the spec: \<open>load\<close> of the header chunk, which parses the 13-byte payload
  (4-byte width, 4-byte height, 1-byte depth, colour type, compression, filter and
  interlace, big-endian) that follows the length and type fields. It serves to run
  \<open>from\<close> on concrete bytes, with stand-ins for the other absent parts: a palette and a
  transparency loader that keep the new chunk empty, reads that return 0, a codec and
  helpers that hand their input on.
\<close>

definition readUint32 :: "int list \<Rightarrow> nat \<Rightarrow> nat" where
  "readUint32 bytes off =
     nat (bytes ! off * 16777216 + bytes ! (off + 1) * 65536
          + bytes ! (off + 2) * 256 + bytes ! (off + 3))"

definition colorTypeOfCode :: "int \<Rightarrow> ColorType option" where
  "colorTypeOfCode c =
     (if c = 0 then Some GRAYSCALE else if c = 2 then Some TRUECOLOR
      else if c = 3 then Some INDEXED else if c = 4 then Some GRAYSCALE_AND_ALPHA
      else if c = 6 then Some TRUECOLOR_AND_ALPHA else None)"

definition IHDR_load :: "IHDR \<Rightarrow> int list \<Rightarrow> error + IHDR" where
  "IHDR_load chunk abuf =
     (if length abuf < calculateDataOffset + 13 then Inl IndexOutOfRange
      else case colorTypeOfCode (abuf ! (calculateDataOffset + 9)) of
             None \<Rightarrow> Inl InvalidMetadata
           | Some ct \<Rightarrow>
               Inr \<lparr>h_width = readUint32 abuf calculateDataOffset,
                    h_height = readUint32 abuf (calculateDataOffset + 4),
                    h_depth = nat (abuf ! (calculateDataOffset + 8)),
                    h_colorType = ct,
                    h_compression = nat (abuf ! (calculateDataOffset + 10)),
                    h_filter = nat (abuf ! (calculateDataOffset + 11)),
                    h_interlace = nat (abuf ! (calculateDataOffset + 12))\<rparr>)"

definition sample_loaders :: loaders where
  "sample_loaders =
     \<lparr>l_IHDR_load = IHDR_load,
      l_PLTE_load = (\<lambda>chunk abuf. Inr chunk),
      l_tRNS_load = (\<lambda>chunk abuf. Inr chunk),
      l_readUint8At = (\<lambda>bytes off. Inr 0),
      l_readUint16At = (\<lambda>bytes off bigEndian. Inr 0),
      l_inflate = (\<lambda>bytes. Inr bytes),
      l_defilter = (\<lambda>bytes w n. bytes),
      l_removeFilterFields = (\<lambda>bytes rowLength h. bytes),
      l_determineDataRowLength = (\<lambda>depth ct w. w),
      l_unpackByteData = (\<lambda>bytes depth. bytes)\<rparr>"

text \<open>
  What \<open>from\<close> makes of the encoded image with these loaders: the metadata of the
  header, a palette chunk, and the pixel-data chunk of the fresh document.
\<close>

definition plte_truecolor_reloaded :: RnPng where
  "plte_truecolor_reloaded =
     \<lparr>png_width = 2, png_height = 1, png_depth = 8, png_colorType = TRUECOLOR,
      png_compression = 0, png_filter = 0, png_interlace = 0,
      chunk_IHDR = \<lparr>h_width = 2, h_height = 1, h_depth = 8, h_colorType = TRUECOLOR,
                    h_compression = 0, h_filter = 0, h_interlace = 0\<rparr>,
      chunk_IDAT = \<lparr>i_width = 0, i_height = 0, i_depth = 8, i_colorType = INDEXED,
                    i_numberOfPixels = 0, i_pixelColorSize = 1, i_hasAlphaSample = False,
                    i_pixelData = []\<rparr>,
      chunk_PLTE = Some \<lparr>p_palette = [], p_maxNumberOfColors = 256\<rparr>,
      chunk_tRNS = None, chunk_bKGD = None\<rparr>"

section \<open>Size prediction\<close>

lemma blocks_floor_is_ceiling:
  "(0xfffe + P) div 0xffff = nat \<lceil>real P / 65535\<rceil>" for P :: nat
proof -
  obtain q r where qr: "P = 65535 * q + r" "r < 65535"
    by (metis mod_less_divisor mult_div_mod_eq zero_less_numeral)
  show ?thesis
  proof (cases "r = 0")
    case True
    then show ?thesis using qr by simp
  next
    case False
    have blocks: "(65534 + P) div 65535 = q + 1"
      using qr False by simp
    have "\<lceil>real P / 65535\<rceil> = int q + 1"
      by (rule ceiling_unique) (use qr False in \<open>simp_all add: field_simps\<close>)
    then show ?thesis using blocks by simp
  qed
qed

text \<open>
  Below \<open>2^53\<close> the size arithmetic is exact. The bit length brackets a positive number
  between two powers of two; a significand rounded to the nearest integer and then
  floored at the unit place is the floored quotient, as long as the divisor has no more
  binary digits than the significand has fraction bits to spare; so \<open>Math.floor(a / b)\<close>
  is the integer quotient for every \<open>a\<close> below \<open>2^53\<close>.
\<close>

lemma bitLength_bounds:
  "0 < n \<Longrightarrow> 2 ^ (bitLength n - 1) \<le> n \<and> n < 2 ^ bitLength n"
proof (induction n rule: bitLength.induct)
  case (1 n)
  show ?case
  proof (cases "n div 2 = 0")
    case True
    with "1.prems" have "n = 1" by (cases n) auto
    then show ?thesis
      by (simp add: bitLength.simps [of "Suc 0"] bitLength.simps [of 0])
  next
    case False
    then have pos: "0 < n div 2" by simp
    from "1.IH" [OF _ pos] "1.prems"
    have ih: "2 ^ (bitLength (n div 2) - 1) \<le> n div 2" "n div 2 < 2 ^ bitLength (n div 2)"
      by simp_all
    have len: "bitLength n = Suc (bitLength (n div 2))"
      using "1.prems" by (subst bitLength.simps) simp
    have lenpos: "0 < bitLength (n div 2)"
      using pos by (subst bitLength.simps) simp
    then obtain j where j: "bitLength (n div 2) = Suc j" by (cases "bitLength (n div 2)") auto
    have "2 * 2 ^ j \<le> 2 * (n div 2)" using ih(1) j by simp
    also have "\<dots> \<le> n" by simp
    finally have lower: "2 ^ (bitLength n - 1) \<le> n" using len j by simp
    have "n < 2 * (n div 2) + 2" by arith
    also have "\<dots> \<le> 2 * 2 ^ bitLength (n div 2)" using ih(2) by simp
    finally have upper: "n < 2 ^ bitLength n" using len by simp
    show ?thesis using lower upper by simp
  qed
qed

lemma bitLength_pos: "0 < n \<Longrightarrow> 0 < bitLength n"
  by (subst bitLength.simps) simp

lemma bitLength_le:
  assumes "n < 2 ^ k"
  shows "bitLength n \<le> k"
proof (cases "n = 0")
  case True
  then show ?thesis by (simp add: bitLength.simps [of 0])
next
  case False
  then have "2 ^ (bitLength n - 1) \<le> n" using bitLength_bounds [of n] by simp
  then have "(2::nat) ^ (bitLength n - 1) < 2 ^ k" using assms by (rule le_less_trans)
  then have "bitLength n - 1 < k" by (simp only: power_strict_increasing_iff one_less_numeral_iff semiring_norm)
  then show ?thesis by simp
qed

lemma roundHalfEven_range:
  "roundHalfEven N D = N div D \<or> (roundHalfEven N D = N div D + 1 \<and> D \<le> 2 * (N mod D))"
  by (auto simp add: roundHalfEven_def Let_def)

lemma roundHalfEven_floor:
  fixes a b s :: nat
  assumes b: "0 < b" and small: "b < 2 * 2 ^ s"
  shows "roundHalfEven (a * 2 ^ s) b div 2 ^ s = a div b"
proof -
  define T :: nat where "T = 2 ^ s"
  define N where "N = a * T"
  define q where "q = N div b"
  define r where "r = N mod b"
  define k where "k = a div b"
  define t where "t = a mod b"
  have Tpos: "0 < T" by (simp add: T_def)
  have N: "N = q * b + r" by (simp add: q_def r_def)
  have a: "a = k * b + t" by (simp add: k_def t_def)
  have t: "t < b" using b by (simp add: t_def)
  have qk: "q div T = k"
    unfolding q_def N_def k_def using Tpos by (simp add: div_mult2_eq [symmetric])
  have lo: "T * k \<le> q" using times_div_less_eq_dividend [of T q] qk by simp
  have hi: "q < T * Suc k" using dividend_less_times_div [OF Tpos, of q] qk by simp
  consider "roundHalfEven N b = q" | "roundHalfEven N b = q + 1" "b \<le> 2 * r"
    using roundHalfEven_range [of N b] by (auto simp add: q_def r_def)
  then have "roundHalfEven N b div T = k"
  proof cases
    case 1
    then show ?thesis using qk by simp
  next
    case 2
    have "q + 1 < T * Suc k"
    proof (rule ccontr)
      assume "\<not> q + 1 < T * Suc k"
      with hi have e: "q + 1 = T * Suc k" by simp
      have "N + b = (q + 1) * b + r" using N by (simp add: algebra_simps)
      also have "\<dots> = T * k * b + T * b + r" using e by (simp add: algebra_simps)
      finally have "a * T + b = T * k * b + T * b + r" by (simp add: N_def)
      then have "(k * b + t) * T + b = T * k * b + T * b + r" using a by simp
      then have eq: "t * T + b = T * b + r" by (simp add: algebra_simps)
      have "Suc t \<le> b" using t by simp
      then have "Suc t * T \<le> b * T" by (rule mult_le_mono1)
      then have "t * T + T \<le> T * b" by (simp add: algebra_simps)
      with eq have "r + T \<le> b" by linarith
      with 2(2) small show False unfolding T_def by linarith
    qed
    moreover have "T * k \<le> q + 1" using lo by simp
    ultimately have "(q + 1) div T = k" by (intro div_nat_eqI) simp_all
    then show ?thesis using 2(1) by simp
  qed
  then show ?thesis by (simp add: N_def T_def k_def)
qed


lemma floor_divide_exact:
  assumes a: "a < 2 ^ 53" and b: "0 < b"
  shows "floor_double (divide_double a b) = a div b"
proof (cases "a = 0")
  case True
  then show ?thesis by (simp add: divide_double_def floor_double_def)
next
  case apos: False
  define la where "la = bitLength a"
  define lb where "lb = bitLength b"
  define d where "d = int la - int lb"
  define L where "L = (if b * 2 ^ nat d \<le> a * 2 ^ nat (- d) then d else d - 1)"
  have la: "la \<le> 53" unfolding la_def using a by (rule bitLength_le)
  have lapos: "0 < la" unfolding la_def using apos by (simp add: bitLength_pos)
  have lbpos: "0 < lb" unfolding lb_def using b by (rule bitLength_pos)
  have ba: "2 ^ (la - 1) \<le> a" using bitLength_bounds [of a] apos by (simp add: la_def)
  have bb: "b < 2 ^ lb" using bitLength_bounds [of b] b by (simp add: lb_def)
  have L52: "L \<le> 52" using la lbpos by (simp add: L_def d_def)
  have K: "b * 2 ^ nat L \<le> a * 2 ^ nat (- L)"
  proof (cases "b * 2 ^ nat d \<le> a * 2 ^ nat (- d)")
    case True
    then show ?thesis by (simp add: L_def)
  next
    case False
    then have L: "L = d - 1" by (simp add: L_def)
    show ?thesis
    proof (cases "1 \<le> d")
      case True
      then have exp: "lb + nat (d - 1) = la - 1" by (simp add: d_def)
      have "b * 2 ^ nat (d - 1) \<le> 2 ^ lb * 2 ^ nat (d - 1)"
        using bb by (simp add: less_imp_le)
      also have "\<dots> = 2 ^ (la - 1)" using exp by (simp add: power_add [symmetric])
      also have "\<dots> \<le> a" by (rule ba)
      finally show ?thesis using True L by simp
    next
      case False
      then have exp: "lb = (la - 1) + nat (1 - d)" using lapos by (simp add: d_def)
      have "b \<le> 2 ^ lb" using bb by simp
      also have "\<dots> = 2 ^ (la - 1) * 2 ^ nat (1 - d)"
        by (subst exp) (simp add: power_add)
      also have "\<dots> \<le> a * 2 ^ nat (1 - d)" using ba by (rule mult_le_mono1)
      finally show ?thesis using False L by simp
    qed
  qed
  define s where "s = nat (52 - L)"
  have bs: "b < 2 * 2 ^ s"
  proof (cases "0 \<le> L")
    case True
    then have exp: "53 = Suc s + nat L" using L52 by (simp add: s_def)
    have "b * 2 ^ nat L \<le> a" using K True by simp
    also have "a < 2 ^ (Suc s + nat L)" using a by (simp only: exp [symmetric])
    finally have "b * 2 ^ nat L < (2 * 2 ^ s) * 2 ^ nat L" by (simp add: power_add)
    then show ?thesis by (simp only: mult_less_cancel2)
  next
    case False
    then have exp: "Suc s = 53 + nat (- L)" by (simp add: s_def)
    have "b \<le> a * 2 ^ nat (- L)" using K False by simp
    also have "\<dots> < 2 ^ 53 * 2 ^ nat (- L)" using a by simp
    also have "\<dots> = 2 ^ Suc s" by (simp only: exp power_add)
    finally show ?thesis by simp
  qed
  have dd: "divide_double a b = (roundHalfEven (a * 2 ^ s) b, L - 52)"
    using apos L52
    by (simp add: divide_double_def Let_def la_def [symmetric] lb_def [symmetric]
        d_def [symmetric] L_def [symmetric] s_def)
  have "floor_double (divide_double a b) = roundHalfEven (a * 2 ^ s) b div 2 ^ s"
    using L52 by (auto simp add: dd floor_double_def s_def)
  then show ?thesis using roundHalfEven_floor [OF b bs] by simp
qed

lemma js_floor_divide_exact:
  "a < 2 ^ 53 \<Longrightarrow> 0 < b \<Longrightarrow> js_floor_divide (Some a) b = Some (a div b)"
  by (simp add: js_floor_divide_def floor_divide_exact)


lemma payload_sum_exact:
  assumes P: "P \<le> 2 ^ 52"
  shows "js_add
           (js_add (js_add (Some 2) (Some P))
              (js_mul (Some 5) (js_floor_divide (js_add (Some 0xfffe) (Some P)) 0xffff)))
           (Some 4)
         = Some (2 + P + 5 * ((0xfffe + P) div 0xffff) + 4)"
proof -
  define B where "B = (0xfffe + P) div 0xffff"
  have B: "B * 0xffff \<le> 0xfffe + P" unfolding B_def by (rule div_times_less_eq_dividend)
  have s1: "js_add (Some 0xfffe) (Some P) = Some (0xfffe + P)"
    using P by (simp add: js_add_def toDouble_def)
  have s2: "js_floor_divide (Some (0xfffe + P)) 0xffff = Some B"
    unfolding B_def using P by (intro js_floor_divide_exact) simp_all
  have s3: "js_mul (Some 5) (Some B) = Some (5 * B)"
    using P B by (simp add: js_mul_def toDouble_def)
  have s4: "js_add (Some 2) (Some P) = Some (2 + P)"
    using P by (simp add: js_add_def toDouble_def)
  have s5: "js_add (Some (2 + P)) (Some (5 * B)) = Some (2 + P + 5 * B)"
    using P B by (simp add: js_add_def toDouble_def)
  have s6: "js_add (Some (2 + P + 5 * B)) (Some 4) = Some (2 + P + 5 * B + 4)"
    using P B by (simp add: js_add_def toDouble_def)
  show ?thesis
    unfolding s1 s2 s3 s4 s5 s6 B_def [symmetric] ..
qed

lemma fullPixelSize_range:
  "0 < determineFullPixelSize ct \<and> determineFullPixelSize ct \<le> 4"
  by (cases ct) (simp_all add: determineFullPixelSize_def)

lemma layout_size_exact:
  assumes row: "w * determineFullPixelSize ct + 1 \<le> 2 ^ 52"
    and all: "(w * determineFullPixelSize ct + 1) * h \<le> 2 ^ 52"
  shows "calculatePixelAndFilterSize (applyLayoutInformation w h d ct n c)
         = Some ((w * determineFullPixelSize ct + 1) * h)"
proof -
  define F where "F = determineFullPixelSize ct"
  define c' where "c' = applyLayoutInformation w h d ct n c"
  have F: "0 < F" "F \<le> 4" using fullPixelSize_range [of ct] by (simp_all add: F_def)
  have row': "w * F + 1 \<le> 2 ^ 52" and all': "(w * F + 1) * h \<le> 2 ^ 52"
    using row all by (simp_all only: F_def)
  have "w \<le> w * F" using F(1) by simp
  with row' have w: "w \<le> 2 ^ 52" by linarith
  have "h \<le> (w * F + 1) * h" by simp
  with all' have h: "h \<le> 2 ^ 52" by linarith
  have s1: "js_add (toDouble (i_pixelColorSize c')) (Some (if i_hasAlphaSample c' then 1 else 0))
            = Some F"
    using F(2)
    by (simp add: c'_def applyLayoutInformation_def determineHasAlphaSample_def F_def
        determineFullPixelSize_def js_add_def toDouble_def)
  have s2: "js_mul (toDouble (i_width c')) (Some F) = Some (w * F)"
    using w row
    by (simp add: c'_def applyLayoutInformation_def F_def js_mul_def toDouble_def)
  have s3: "js_add (Some (w * F)) (Some 1) = Some (w * F + 1)"
    using row by (simp add: F_def js_add_def toDouble_def)
  have s4: "js_mul (Some (w * F + 1)) (toDouble (i_height c')) = Some ((w * F + 1) * h)"
    using h all
    by (simp add: c'_def applyLayoutInformation_def F_def js_mul_def toDouble_def)
  have "calculatePixelAndFilterSize c' = Some ((w * F + 1) * h)"
    unfolding calculatePixelAndFilterSize_def Let_def s1 s2 s3 s4 ..
  then show ?thesis by (simp only: c'_def F_def)
qed

lemma payload_size_exact:
  assumes "P \<le> 2 ^ 52"
  shows "calculatePayloadSize c (Some P) = Some (2 + P + 5 * nat \<lceil>real P / 65535\<rceil> + 4)"
  using payload_sum_exact [OF assms] assms
  by (simp add: calculatePayloadSize_def DEFLATE_BLOCKS_SIZE_def ZLIB_HEADER_SIZE_def
      ADLER_CHECKSUM_SIZE_def toDouble_def blocks_floor_is_ceiling)

lemma payload_size_default:
  "calculatePixelAndFilterSize c = Some S \<Longrightarrow> S \<le> 2 ^ 52 \<Longrightarrow>
   calculatePayloadSize c None = calculatePayloadSize c (Some S)"
  by (simp add: calculatePayloadSize_def toDouble_def)

text \<open>
  Claim C2, as stated: for every width, height, bit depth and colour type the predicted
  payload size is \<open>2 + P + 5 * ceil(P / 65535) + 4\<close> with
  \<open>P = (width * fullPixelSize + 1) * height\<close>, and \<open>5 * floor((0xfffe + P) / 0xffff)\<close> is
  \<open>5 * ceil(P / 65535)\<close> for every \<open>P\<close>. The sizes are doubles, and beyond \<open>2^53\<close> the
  code rounds. For \<open>P = 2^53 - 1\<close> the first sum \<open>2 + P\<close> is odd and above \<open>2^53\<close>, and the
  prediction is 9007886459994280, two below the formula. For \<open>P = 65535 * 2^38\<close> the sum
  \<open>0xfffe + P\<close> rounds up to an even number, the quotient to \<open>2^38 + 1\<close>, and the code
  counts one block more than \<open>ceil(P / 65535)\<close>. For a truecolour image of
  \<open>2^31 - 1\<close> by \<open>2^31 - 1\<close> pixels, \<open>calculatePixelAndFilterSize()\<close> is two below
  \<open>(width * 3 + 1) * height\<close>.
\<close>

theorem C2_payload_size_counterexample:
  "calculatePayloadSize (IDAT_new 1 1 8 TRUECOLOR 1) (Some (2 ^ 53 - 1))
     = Some 9007886459994280
   \<and> 2 + (2 ^ 53 - 1) + 5 * nat \<lceil>real (2 ^ 53 - 1) / 65535\<rceil> + 4
       = (9007886459994282 :: nat)
   \<and> js_mul (Some ZLIB_HEADER_SIZE)
        (js_floor_divide (js_add (Some 0xfffe) (toDouble (65535 * 2 ^ 38))) 0xffff)
       = Some (5 * (2 ^ 38 + 1))
   \<and> 5 * nat \<lceil>real (65535 * 2 ^ 38) / 65535\<rceil> = (5 * 2 ^ 38 :: nat)
   \<and> calculatePixelAndFilterSize
        (applyLayoutInformation (2 ^ 31 - 1) (2 ^ 31 - 1) 8 TRUECOLOR
           ((2 ^ 31 - 1) * (2 ^ 31 - 1)) (IDAT_new 1 1 8 TRUECOLOR 1))
       = Some 13835058044544745472
   \<and> ((2 ^ 31 - 1) * (determinePixelColorSize TRUECOLOR
          + (if hasAlphaSample TRUECOLOR then 1 else 0)) + 1) * (2 ^ 31 - 1)
       = (13835058044544745474 :: nat)"
  by (simp add: calculatePayloadSize_def calculatePixelAndFilterSize_def
      applyLayoutInformation_def determineHasAlphaSample_def
      DEFLATE_BLOCKS_SIZE_def ADLER_CHECKSUM_SIZE_def ZLIB_HEADER_SIZE_def
      js_mul_def js_add_def js_floor_divide_def toDouble_def
      roundHalfEven_def divide_double_def floor_double_def bitLength.simps Let_def)

text \<open>
  Claim C2, as amended. When \<open>width * fullPixelSize + 1\<close>, the size
  \<open>S = (width * fullPixelSize + 1) * height\<close> and the argument \<open>P\<close> are at most \<open>2^52\<close>,
  with \<open>fullPixelSize\<close> the colour sample count plus one if the colour type carries
  alpha: \<open>calculatePixelAndFilterSize()\<close> is \<open>S\<close>; the predicted payload size is
  \<open>2 + S + 5 * ceil(S / 65535) + 4\<close>, and \<open>2 + P + 5 * ceil(P / 65535) + 4\<close> when the size
  \<open>P\<close> is passed as the argument; and the code's
  \<open>5 * floor((0xfffe + P) / 0xffff)\<close> is \<open>5 * ceil(P / 65535)\<close>.
\<close>

theorem C2_payload_size:
  assumes "F = determinePixelColorSize ct + (if hasAlphaSample ct then 1 else 0)"
    and "S = (w * F + 1) * h"
    and "w * F + 1 \<le> 2 ^ 52" and "S \<le> 2 ^ 52" and "P \<le> 2 ^ 52"
  shows "calculatePixelAndFilterSize (IDAT_new w h d ct n) = Some S
   \<and> calculatePayloadSize (IDAT_new w h d ct n) None
       = Some (2 + S + 5 * nat \<lceil>real S / 65535\<rceil> + 4)
   \<and> calculatePayloadSize (IDAT_new w h d ct n) (Some P)
       = Some (2 + P + 5 * nat \<lceil>real P / 65535\<rceil> + 4)
   \<and> js_mul (Some ZLIB_HEADER_SIZE)
        (js_floor_divide (js_add (Some 0xfffe) (toDouble P)) 0xffff)
       = Some (5 * nat \<lceil>real P / 65535\<rceil>)"
proof -
  let ?c = "IDAT_new w h d ct n"
  have F: "F = determineFullPixelSize ct"
    using assms(1) by (simp add: determineFullPixelSize_def)
  have "calculatePixelAndFilterSize ?c
        = calculatePixelAndFilterSize
            (applyLayoutInformation w h d ct n
               \<lparr>i_width = 0, i_height = 0, i_depth = 0, i_colorType = ct,
                i_numberOfPixels = 0, i_pixelColorSize = 0, i_hasAlphaSample = False,
                i_pixelData = []\<rparr>)"
    by (simp add: IDAT_new_def Let_def calculatePixelAndFilterSize_def)
  then have size: "calculatePixelAndFilterSize ?c = Some S"
    using layout_size_exact [of w ct h d n] assms(2-4) by (simp add: F)
  have dflt: "calculatePayloadSize ?c None
              = Some (2 + S + 5 * nat \<lceil>real S / 65535\<rceil> + 4)"
    using payload_size_default [OF size assms(4)] payload_size_exact [OF assms(4)] by simp
  have blocks: "js_mul (Some ZLIB_HEADER_SIZE)
        (js_floor_divide (js_add (Some 0xfffe) (toDouble P)) 0xffff)
       = Some (5 * nat \<lceil>real P / 65535\<rceil>)"
  proof -
    define B where "B = (0xfffe + P) div 0xffff"
    have B: "B * 0xffff \<le> 0xfffe + P" unfolding B_def by (rule div_times_less_eq_dividend)
    have "js_floor_divide (Some (0xfffe + P)) 0xffff = Some B"
      unfolding B_def using assms(5) by (intro js_floor_divide_exact) simp_all
    then have "js_mul (Some ZLIB_HEADER_SIZE)
        (js_floor_divide (js_add (Some 0xfffe) (toDouble P)) 0xffff) = Some (5 * B)"
      using assms(5) B by (simp add: ZLIB_HEADER_SIZE_def js_mul_def js_add_def toDouble_def)
    then show ?thesis by (simp add: B_def blocks_floor_is_ceiling)
  qed
  show ?thesis
    using size dflt payload_size_exact [OF assms(5), of ?c] blocks by simp
qed

text \<open>
  The theorem on a 2-by-1 truecolour image of depth 8, whose 7 bytes fit one block and
  give a payload of 18 bytes, and on an argument of 65536 bytes, which needs two blocks.
\<close>

theorem C2_payload_size_witness:
  "calculatePixelAndFilterSize (IDAT_new 2 1 8 TRUECOLOR 2) = Some 7
   \<and> calculatePayloadSize (IDAT_new 2 1 8 TRUECOLOR 2) None = Some 18
   \<and> calculatePayloadSize (IDAT_new 2 1 8 TRUECOLOR 2) (Some 65536) = Some 65552
   \<and> js_mul (Some ZLIB_HEADER_SIZE)
        (js_floor_divide (js_add (Some 0xfffe) (toDouble 65536)) 0xffff) = Some 10"
  using C2_payload_size [where F = 3 and ct = TRUECOLOR and S = 7 and w = 2 and h = 1
      and P = 65536 and d = 8 and n = 2]
  by simp

section \<open>Loading the background colour\<close>

lemma loadSamples_read_ok:
  "rd dataOffset = Inr v \<Longrightarrow>
   loadSamples rd dataOffset n i offset color = Inr (color @ replicate (n - i) v)"
proof (induction rd dataOffset n i offset color rule: loadSamples.induct)
  case (1 rd dataOffset numberOfSamples i offset color)
  show ?case
  proof (cases "i < numberOfSamples")
    case True
    then have step: "numberOfSamples - i = Suc (numberOfSamples - (i + 1))" by simp
    have "loadSamples rd dataOffset numberOfSamples i offset color
        = loadSamples rd dataOffset numberOfSamples (i + 1) (offset + 2) (color @ [v])"
      using True "1.prems" by (subst loadSamples.simps) simp
    also have "\<dots> = Inr ((color @ [v]) @ replicate (numberOfSamples - (i + 1)) v)"
      using "1.IH" [OF True "1.prems" "1.prems"] .
    also have "\<dots> = Inr (color @ replicate (numberOfSamples - i) v)"
      unfolding step by simp
    finally show ?thesis .
  next
    case False
    then show ?thesis by (subst loadSamples.simps) simp
  qed
qed

lemma loadSamples_read_fails:
  "rd dataOffset = Inl e \<Longrightarrow> i < n \<Longrightarrow> loadSamples rd dataOffset n i offset color = Inl e"
  by (subst loadSamples.simps) simp

lemma write_samples_length [simp]: "length (write_samples buf i vs) = length buf"
  by (induction vs arbitrary: buf i) auto

lemma write_samples_eq:
  "i + length vs \<le> length buf \<Longrightarrow>
   write_samples buf i vs = take i buf @ map clamp8 vs @ drop (i + length vs) buf"
proof (induction vs arbitrary: buf i)
  case Nil
  then show ?case by simp
next
  case (Cons v vs)
  then have "i < length buf" by simp
  then show ?case using Cons
    by (simp add: take_Suc_conv_app_nth upd_conv_take_nth_drop add.commute)
qed

lemma samples_positive: "0 < determineBackgroundSamplesPerEntry ct"
  by (cases ct) simp_all

lemma setBackgroundColor_replicate:
  assumes "length (b_backgroundColor b) = determineBackgroundSamplesPerEntry (b_colorType b)"
  shows "bKGD_setBackgroundColor b (replicate (determineBackgroundSamplesPerEntry (b_colorType b)) v)
       = Inr (b\<lparr>b_backgroundColor :=
                  replicate (determineBackgroundSamplesPerEntry (b_colorType b)) (clamp8 v)\<rparr>)"
  using assms by (simp add: bKGD_setBackgroundColor_def write_samples_eq)

lemma loadSamples_single_read:
  "loadSamples rd calculateDataOffset (determineBackgroundSamplesPerEntry ct) 0
     calculateDataOffset [] =
   (case rd calculateDataOffset of
      Inl e \<Rightarrow> Inl e
    | Inr v \<Rightarrow> Inr (replicate (determineBackgroundSamplesPerEntry ct) v))"
proof (cases "rd calculateDataOffset")
  case (Inl e)
  then show ?thesis
    using loadSamples_read_fails [of rd _ e 0 "determineBackgroundSamplesPerEntry ct"]
      samples_positive by simp
next
  case (Inr v)
  then show ?thesis
    using loadSamples_read_ok [of rd _ v "determineBackgroundSamplesPerEntry ct" 0] by simp
qed

text \<open>
  Claim C10. For every non-indexed colour type and every input buffer, \<open>bKGD.load\<close> reads
  each of its background samples from the same fixed data offset: the loop increments an
  offset that the read never uses. The outcome of \<open>load\<close> is therefore decided by the one
  read at \<open>calculateDataOffset()\<close>: when that read throws, \<open>load\<close> throws; when it returns
  \<open>v\<close>, every sample of the stored background colour is \<open>v\<close> (clamped to a byte), so all
  samples are equal to one another. This holds for both versions of the chunk, for any
  behaviour of the read helpers, on a chunk whose colour array has the length its
  constructor allocates.
\<close>

theorem C10_background_samples_equal:
  assumes nonIndexed: "b_colorType b \<noteq> INDEXED"
    and allocated:
      "length (b_backgroundColor b) = determineBackgroundSamplesPerEntry (b_colorType b)"
  shows "bKGD_load readUint8At readUint16At b abuf =
           (case readUint16At
                   (subarray abuf calculateDataOffset
                      (calculateDataOffset + bKGD_calculatePayloadSize b))
                   calculateDataOffset True of
              Inl e \<Rightarrow> Inl e
            | Inr v \<Rightarrow>
                Inr (b\<lparr>b_backgroundColor :=
                         replicate (determineBackgroundSamplesPerEntry (b_colorType b)) (clamp8 v)\<rparr>))
       \<and> bKGD_load_buffered bufReadUint8At bufReadUint16At b abuf =
           (case bufReadUint16At abuf (bKGD_calculateChunkLength b) calculateDataOffset of
              Inl e \<Rightarrow> Inl e
            | Inr v \<Rightarrow>
                Inr (b\<lparr>b_backgroundColor :=
                         replicate (determineBackgroundSamplesPerEntry (b_colorType b)) (clamp8 v)\<rparr>))
       \<and> (case bKGD_load readUint8At readUint16At b abuf of
             Inl e \<Rightarrow> True
           | Inr b' \<Rightarrow> \<exists>v. b_backgroundColor b' = replicate (length (b_backgroundColor b')) v)
       \<and> (case bKGD_load_buffered bufReadUint8At bufReadUint16At b abuf of
             Inl e \<Rightarrow> True
           | Inr b' \<Rightarrow> \<exists>v. b_backgroundColor b' = replicate (length (b_backgroundColor b')) v)"
proof -
  let ?n = "determineBackgroundSamplesPerEntry (b_colorType b)"
  have first: "bKGD_load readUint8At readUint16At b abuf =
           (case readUint16At
                   (subarray abuf calculateDataOffset
                      (calculateDataOffset + bKGD_calculatePayloadSize b))
                   calculateDataOffset True of
              Inl e \<Rightarrow> Inl e
            | Inr v \<Rightarrow> Inr (b\<lparr>b_backgroundColor := replicate ?n (clamp8 v)\<rparr>))"
    using nonIndexed setBackgroundColor_replicate [OF allocated]
    by (simp add: bKGD_load_def isIndexed_def Let_def loadSamples_single_read
        split: sum.splits)
  have second: "bKGD_load_buffered bufReadUint8At bufReadUint16At b abuf =
           (case bufReadUint16At abuf (bKGD_calculateChunkLength b) calculateDataOffset of
              Inl e \<Rightarrow> Inl e
            | Inr v \<Rightarrow> Inr (b\<lparr>b_backgroundColor := replicate ?n (clamp8 v)\<rparr>))"
    using nonIndexed setBackgroundColor_replicate [OF allocated]
    by (simp add: bKGD_load_buffered_def Let_def loadSamples_single_read
        split: sum.splits)
  have third: "(case bKGD_load readUint8At readUint16At b abuf of
             Inl e \<Rightarrow> True
           | Inr b' \<Rightarrow> \<exists>v. b_backgroundColor b' = replicate (length (b_backgroundColor b')) v)"
    unfolding first by (auto split: sum.splits)
  have fourth: "(case bKGD_load_buffered bufReadUint8At bufReadUint16At b abuf of
             Inl e \<Rightarrow> True
           | Inr b' \<Rightarrow> \<exists>v. b_backgroundColor b' = replicate (length (b_backgroundColor b')) v)"
    unfolding second by (auto split: sum.splits)
  show ?thesis using first second third fourth by blast
qed

text \<open>
  The theorem at a truecolour chunk whose payload holds the samples 1, 2 and 3 as 16-bit
  big-endian numbers. The first version reads at the data offset inside the 6-byte
  payload slice, past its end (a typed array reads \<open>undefined\<close> there, which makes the
  number 0); the second reads the two bytes at the data offset three times.
\<close>

theorem C10_background_samples_equal_witness:
  "bKGD_load
     (\<lambda>bytes off. Inr (if off < length bytes then bytes ! off else 0))
     (\<lambda>bytes off bigEndian.
        Inr (if off + 1 < length bytes then bytes ! off * 256 + bytes ! (off + 1) else 0))
     (bKGD_new TRUECOLOR)
     [0, 0, 0, 6, 98, 75, 71, 68, 0, 1, 0, 2, 0, 3, 9, 9, 9, 9]
   = Inr \<lparr>b_colorType = TRUECOLOR, b_backgroundColor = [0, 0, 0]\<rparr>
   \<and> bKGD_load_buffered
     (\<lambda>abuf len off. Inr (abuf ! off))
     (\<lambda>abuf len off. Inr (abuf ! off * 256 + abuf ! (off + 1)))
     (bKGD_new TRUECOLOR)
     [0, 0, 0, 6, 98, 75, 71, 68, 0, 1, 0, 2, 0, 3, 9, 9, 9, 9]
   = Inr \<lparr>b_colorType = TRUECOLOR, b_backgroundColor = [1, 1, 1]\<rparr>"
  using C10_background_samples_equal [of "bKGD_new TRUECOLOR"
      "\<lambda>bytes off. Inr (if off < length bytes then bytes ! off else 0)"
      "\<lambda>bytes off bigEndian.
        Inr (if off + 1 < length bytes then bytes ! off * 256 + bytes ! (off + 1) else 0)"
      "[0, 0, 0, 6, 98, 75, 71, 68, 0, 1, 0, 2, 0, 3, 9, 9, 9, 9]"
      "\<lambda>abuf len off. Inr (abuf ! off)"
      "\<lambda>abuf len off. Inr (abuf ! off * 256 + abuf ! (off + 1))"]
  by (simp add: bKGD_new_def subarray_def calculateDataOffset_def CHUNK_LENGTH_SIZE_def
      CHUNK_TYPE_SIZE_def bKGD_calculatePayloadSize_def isIndexed_def clamp8_def
      numeral_3_eq_3)

section \<open>Running the constructor and a pixel write\<close>

lemmas constructor_defs =
  RnPng_new_def applyMetaData_def initializeChunks_def getMetaData_def IDAT_new_def
  applyLayoutInformation_def calculatePixelAndFilterSize_def js_add_def js_mul_def toDouble_def
  BitDepths_def BitDepths_EIGHT_def
  DEFAULT_COMPRESSION_def DEFAULT_FILTER_def DEFAULT_INTERLACE_def
  computeNumberOfPixels_def computeMaxNumberOfColors_def isIndexed_def PLTE_new_def
  determineHasAlphaSample_def Let_def

lemmas pixel_defs =
  setPixelAt_def getPixelAt_def requiredSamples_def RnPng_isIndexed_def isIndexed_def
  hasAlphaChannel_def translateXyToIndex_def PLTE_isColorInPalette_def PLTE_addColor_def
  PLTE_getPaletteIndex_def IDAT_setPixelOf_def IDAT_getPixelOf_def IDAT_getValueAt_def
  clamp8_def Let_def

lemma new_indexed: "RnPng_new indexed_options = Inr fresh_indexed"
  by (simp add: constructor_defs indexed_options_def fresh_indexed_def)

lemma new_truecolor: "RnPng_new truecolor_options = Inr fresh_truecolor"
  by (simp add: constructor_defs truecolor_options_def fresh_truecolor_def numeral_3_eq_3)

lemma paint_indexed:
  "setPixelAt fresh_indexed (XY 0 0) (Samples [10, 20, 30]) = Inr painted_indexed"
  by (simp add: pixel_defs fresh_indexed_def painted_indexed_def)

section \<open>The length of the sample buffer\<close>

text \<open>
  The constructor allocates \<open>calculatePixelAndFilterSize()\<close> entries: one more per scanline
  than the samples need, for every size the arithmetic holds exactly.
\<close>

lemma IDAT_new_buffer_length:
  assumes "w * determineFullPixelSize ct + 1 \<le> 2 ^ 52"
    and "(w * determineFullPixelSize ct + 1) * h \<le> 2 ^ 52"
  shows "length (i_pixelData (IDAT_new w h d ct n)) = (w * determineFullPixelSize ct + 1) * h"
  using layout_size_exact [OF assms, of d n] by (simp add: IDAT_new_def Let_def)

lemma constructor_buffer_length:
  assumes "RnPng_new opts = Inr d"
    and row: "png_width d * determineFullPixelSize (png_colorType d) + 1 \<le> 2 ^ 52"
    and all: "(png_width d * determineFullPixelSize (png_colorType d) + 1) * png_height d
              \<le> 2 ^ 52"
  shows "length (i_pixelData (chunk_IDAT d))
         = (png_width d * determineFullPixelSize (png_colorType d) + 1) * png_height d"
proof -
  have "chunk_IDAT d = IDAT_new (png_width d) (png_height d) (png_depth d) (png_colorType d)
                         (computeNumberOfPixels (png_width d) (png_height d))"
    using assms(1)
    by (auto simp add: RnPng_new_def applyMetaData_def initializeChunks_def getMetaData_def
        Let_def split: if_splits option.splits)
  then show ?thesis using IDAT_new_buffer_length [OF row all] by simp
qed

lemma replicate_three: "replicate 3 x = [x, x, x]"
  by (simp add: numeral_3_eq_3)

lemma replicate_two: "replicate 2 x = [x, x]"
  by (simp add: numeral_2_eq_2)

lemma setPixelAt_keeps_buffer_length:
  assumes "setPixelAt d pos data0 = Inr d'"
  shows "length (i_pixelData (chunk_IDAT d')) = length (i_pixelData (chunk_IDAT d))"
  using assms
  by (auto simp add: setPixelAt_def Let_def IDAT_setPixelOf_def setTransparency_def
      removeTransparency_def PLTE_addColor_def
      split: if_splits option.splits sum.splits prod.splits)

text \<open>
  The example of the specification, a 2-by-1 indexed image of depth 8 painted with
  (255, 0, 0) and (0, 255, 0): the palette is as expected, and the raster, expected to
  be 0, 1, has a third entry.
\<close>

lemma spec_example_raster:
  "(case RnPng_new \<lparr>o_width = Some 2, o_height = Some 1, o_depth = Some 8,
                     o_colorType = Some INDEXED\<rparr> of
      Inl e \<Rightarrow> False
    | Inr d0 \<Rightarrow>
        (case setPixelAt d0 (XY 0 0) (Samples [255, 0, 0]) of
           Inl e \<Rightarrow> False
         | Inr d1 \<Rightarrow>
             (case setPixelAt d1 (XY 1 0) (Samples [0, 255, 0]) of
                Inl e \<Rightarrow> False
              | Inr d2 \<Rightarrow>
                  chunk_PLTE d2
                    = Some \<lparr>p_palette = [[255, 0, 0], [0, 255, 0]], p_maxNumberOfColors = 256\<rparr>
                  \<and> i_pixelData (chunk_IDAT d2) = [0, 1, 0])))"
  by (simp add: constructor_defs pixel_defs replicate_three replicate_two)

text \<open>
  Claim C4. The sample buffer is a flat sequence of one byte per colour sample, of length
  exactly \<open>width * height * samples-per-pixel\<close>, in every reachable document state.

  The constructor of the pixel-data chunk allocates \<open>calculatePixelAndFilterSize()\<close>
  entries, one more per scanline than the samples need, while \<open>translateXyToIndex\<close>,
  \<open>update\<close> and \<open>load\<close> treat the buffer as samples only. A fresh 1-by-1 truecolour
  document has a buffer of 4 entries for its 3 samples.
\<close>

theorem C4_constructor_buffer_length:
  "RnPng_new truecolor_options = Inr fresh_truecolor
   \<and> length (i_pixelData (chunk_IDAT fresh_truecolor)) = 4
   \<and> png_width fresh_truecolor * png_height fresh_truecolor
       * samplesPerPixel (png_colorType fresh_truecolor) = 3"
  using new_truecolor by (simp add: fresh_truecolor_def)

section \<open>The sample count check of setPixelAt\<close>

lemma requiredSamples_table:
  "requiredSamples d =
     (if png_colorType d = INDEXED then 3 else determineFullPixelSize (png_colorType d))"
  by (simp add: requiredSamples_def RnPng_isIndexed_def isIndexed_def)

lemma PLTE_addColor_not_insufficient: "PLTE_addColor p c \<noteq> Inl (InsufficientSamples n)"
  by (simp add: PLTE_addColor_def)

lemma removeTransparency_not_insufficient:
  "removeTransparency d c \<noteq> Inl (InsufficientSamples n)"
  by (simp add: removeTransparency_def split: option.splits)

lemma setPixelAt_enough:
  assumes "\<not> length (toArray data0) < requiredSamples d"
  shows "setPixelAt d pos data0 \<noteq> Inl (InsufficientSamples n)"
  using assms PLTE_addColor_not_insufficient removeTransparency_not_insufficient
  by (auto simp add: setPixelAt_def Let_def split: option.splits sum.splits if_splits prod.splits)

text \<open>
  Claim C6. \<open>setPixelAt(pos, data)\<close> fails with \<open>InsufficientSamples\<close> if and only if the
  supplied data has fewer samples than the required tuple length, which is 3 for an
  indexed image and \<open>determineFullPixelSize(colorType)\<close> for every other colour type; the
  error names the required length. When the data has enough samples, whatever else
  \<open>setPixelAt\<close> does, it does not raise this error.
\<close>

theorem C6_insufficient_samples:
  "(setPixelAt d pos data0 = Inl (InsufficientSamples n))
     = (length (toArray data0) < requiredSamples d \<and> n = requiredSamples d)
   \<and> requiredSamples d =
       (if png_colorType d = INDEXED then 3 else determineFullPixelSize (png_colorType d))"
proof (cases "length (toArray data0) < requiredSamples d")
  case True
  then have "setPixelAt d pos data0 = Inl (InsufficientSamples (requiredSamples d))"
    by (simp add: setPixelAt_def Let_def)
  with True show ?thesis
    using requiredSamples_table [of d] by auto
next
  case False
  then show ?thesis
    using setPixelAt_enough [of data0 d pos n] requiredSamples_table [of d] by auto
qed

text \<open>
  The theorem on the fresh indexed document: two samples are rejected with the expected
  count 3, and three samples are accepted.
\<close>

theorem C6_insufficient_samples_witness:
  "setPixelAt fresh_indexed (Index 0) (Samples [10, 20]) = Inl (InsufficientSamples 3)
   \<and> setPixelAt fresh_indexed (Index 0) (Sample 10) = Inl (InsufficientSamples 3)
   \<and> setPixelAt fresh_indexed (XY 0 0) (Samples [10, 20, 30]) \<noteq> Inl (InsufficientSamples 3)"
  using C6_insufficient_samples [of fresh_indexed "Index 0" "Samples [10, 20]" 3]
    C6_insufficient_samples [of fresh_indexed "Index 0" "Sample 10" 3]
    C6_insufficient_samples [of fresh_indexed "XY 0 0" "Samples [10, 20, 30]" 3]
  by (simp add: fresh_indexed_def)

section \<open>Reading a pixel of an indexed image\<close>

lemma indexed_pixel_is_stored_index:
  assumes "png_colorType d = INDEXED" and "layoutApplied d"
    and "resolveIndex d pos < length (i_pixelData (chunk_IDAT d))"
  shows "IDAT_getPixelOf (chunk_IDAT d) (resolveIndex d pos)
         = Num (int (i_pixelData (chunk_IDAT d) ! resolveIndex d pos))"
  using assms
  by (simp add: IDAT_getPixelOf_def IDAT_getValueAt_def layoutApplied_def
      determineHasAlphaSample_def)

text \<open>
  Claim C3, as stated: on an indexed image without a transparency chunk, \<open>getPixelAt\<close>
  returns a pixel whose alpha component is 255. The painted document is indexed and has
  no transparency chunk; \<open>getPixelAt([0, 0])\<close> returns the three samples of the palette
  entry and no alpha component, because the alpha sample is appended under the guard
  \<open>_doesContainChunk(this, 'tRNS')\<close> only.
\<close>

theorem C3_alpha_counterexample:
  "RnPng_new indexed_options = Inr fresh_indexed
   \<and> setPixelAt fresh_indexed (XY 0 0) (Samples [10, 20, 30]) = Inr painted_indexed
   \<and> png_colorType painted_indexed = INDEXED
   \<and> chunk_tRNS painted_indexed = None
   \<and> getPixelAt painted_indexed (XY 0 0) = Inr (Arr [10, 20, 30])
   \<and> getPixelAt painted_indexed (XY 0 0) \<noteq> Inr (Arr [10, 20, 30, 255])"
  using new_indexed paint_indexed
  by (simp add: pixel_defs fresh_indexed_def painted_indexed_def)

text \<open>
  Claim C3, as amended. On an indexed image, at a position inside the sample buffer whose
  stored palette index is below the palette length: when the document has no
  transparency chunk, \<open>getPixelAt\<close> returns the palette entry of the stored index as it
  is, with no alpha sample appended; when a transparency chunk exists and holds no
  value for that index, \<open>getPixelAt\<close> returns the palette entry followed by the alpha
  sample 255.
\<close>

theorem C3_indexed_pixel_without_transparency:
  assumes indexed: "png_colorType d = INDEXED"
    and layout: "layoutApplied d"
    and palette: "chunk_PLTE d = Some p"
    and inside: "resolveIndex d pos < length (i_pixelData (chunk_IDAT d))"
    and known: "i_pixelData (chunk_IDAT d) ! resolveIndex d pos < length (p_palette p)"
  shows "(chunk_tRNS d = None \<longrightarrow>
            getPixelAt d pos
              = Inr (Arr (p_palette p ! (i_pixelData (chunk_IDAT d) ! resolveIndex d pos))))
       \<and> (\<forall>t. chunk_tRNS d = Some t
              \<and> tRNS_getValueOf t (Num (int (i_pixelData (chunk_IDAT d) ! resolveIndex d pos)))
                  = Undefined \<longrightarrow>
            getPixelAt d pos
              = Inr (Arr (p_palette p ! (i_pixelData (chunk_IDAT d) ! resolveIndex d pos)
                          @ [255])))"
  using indexed palette known indexed_pixel_is_stored_index [OF indexed layout inside]
  by (simp add: getPixelAt_def hasAlphaChannel_def RnPng_isIndexed_def isIndexed_def Let_def)

text \<open>
  The theorem on the painted document, without a transparency chunk and with an empty
  one.
\<close>

theorem C3_indexed_pixel_without_transparency_witness:
  "getPixelAt painted_indexed (XY 0 0) = Inr (Arr [10, 20, 30])
   \<and> getPixelAt
        (painted_indexed\<lparr>chunk_tRNS := Some (tRNS_new INDEXED 1 256)\<rparr>) (XY 0 0)
       = Inr (Arr [10, 20, 30, 255])"
  using C3_indexed_pixel_without_transparency
      [of painted_indexed "\<lparr>p_palette = [[10, 20, 30]], p_maxNumberOfColors = 256\<rparr>" "XY 0 0"]
    C3_indexed_pixel_without_transparency
      [of "painted_indexed\<lparr>chunk_tRNS := Some (tRNS_new INDEXED 1 256)\<rparr>"
          "\<lparr>p_palette = [[10, 20, 30]], p_maxNumberOfColors = 256\<rparr>" "XY 0 0"]
  by (simp add: painted_indexed_def fresh_indexed_def layoutApplied_def
      determineHasAlphaSample_def translateXyToIndex_def tRNS_new_def)

section \<open>Palette lookups\<close>

lemma getPaletteIndexAt_stored:
  assumes "chunk_PLTE d = Some p"
    and "resolveIndex d pos < length (i_pixelData (chunk_IDAT d))"
  shows "getPaletteIndexAt d pos =
          (if i_pixelData (chunk_IDAT d) ! resolveIndex d pos \<ge> length (p_palette p)
           then Inl IndexOutOfRange
           else Inr (Num (int (i_pixelData (chunk_IDAT d) ! resolveIndex d pos))))"
  using assms
  by (simp add: getPaletteIndexAt_def doesContainPLTE_def getPalette_def PLTE_getPalette_def
      IDAT_getValueAt_def Let_def)

text \<open>
  Claim C7. \<open>getPaletteIndexAt(pos)\<close> and \<open>getPaletteColorAt(pos)\<close> fail with
  \<open>NoPalette\<close> whenever no palette chunk is present, and fail with \<open>IndexOutOfRange\<close>
  whenever the palette index stored in the sample buffer at the resolved position is
  greater than or equal to the palette length; otherwise \<open>getPaletteIndexAt\<close> returns the
  stored index and \<open>getPaletteColorAt\<close> returns the palette entry at that index.
\<close>

theorem C7_palette_lookup:
  "(chunk_PLTE d = None \<longrightarrow>
      getPaletteIndexAt d pos = Inl NoPalette \<and> getPaletteColorAt d pos = Inl NoPalette)
   \<and> (chunk_PLTE d = Some p
        \<and> resolveIndex d pos < length (i_pixelData (chunk_IDAT d))
        \<and> i_pixelData (chunk_IDAT d) ! resolveIndex d pos \<ge> length (p_palette p) \<longrightarrow>
      getPaletteIndexAt d pos = Inl IndexOutOfRange
      \<and> getPaletteColorAt d pos = Inl IndexOutOfRange)
   \<and> (chunk_PLTE d = Some p
        \<and> resolveIndex d pos < length (i_pixelData (chunk_IDAT d))
        \<and> i_pixelData (chunk_IDAT d) ! resolveIndex d pos < length (p_palette p) \<longrightarrow>
      getPaletteIndexAt d pos = Inr (Num (int (i_pixelData (chunk_IDAT d) ! resolveIndex d pos)))
      \<and> getPaletteColorAt d pos
          = Inr (Arr (p_palette p ! (i_pixelData (chunk_IDAT d) ! resolveIndex d pos))))"
proof -
  have absent: "getPaletteIndexAt d pos = Inl NoPalette \<and> getPaletteColorAt d pos = Inl NoPalette"
    if "chunk_PLTE d = None"
    using that by (simp add: getPaletteIndexAt_def getPaletteColorAt_def doesContainPLTE_def)
  have beyond: "getPaletteIndexAt d pos = Inl IndexOutOfRange
      \<and> getPaletteColorAt d pos = Inl IndexOutOfRange"
    if "chunk_PLTE d = Some p" "resolveIndex d pos < length (i_pixelData (chunk_IDAT d))"
      "i_pixelData (chunk_IDAT d) ! resolveIndex d pos \<ge> length (p_palette p)"
    using that getPaletteIndexAt_stored [OF that(1,2)]
    by (simp add: getPaletteColorAt_def doesContainPLTE_def)
  have found: "getPaletteIndexAt d pos
        = Inr (Num (int (i_pixelData (chunk_IDAT d) ! resolveIndex d pos)))
      \<and> getPaletteColorAt d pos
          = Inr (Arr (p_palette p ! (i_pixelData (chunk_IDAT d) ! resolveIndex d pos)))"
    if "chunk_PLTE d = Some p" "resolveIndex d pos < length (i_pixelData (chunk_IDAT d))"
      "i_pixelData (chunk_IDAT d) ! resolveIndex d pos < length (p_palette p)"
    using that getPaletteIndexAt_stored [OF that(1,2)]
    by (simp add: getPaletteColorAt_def doesContainPLTE_def)
  show ?thesis using absent beyond found by blast
qed

text \<open>
  The three cases: a truecolour document (no palette), the fresh indexed document (the
  stored index 0 is not below the length 0 of its empty palette), and the painted one.
\<close>

theorem C7_palette_lookup_witness:
  "getPaletteIndexAt fresh_truecolor (Index 0) = Inl NoPalette
   \<and> getPaletteColorAt fresh_truecolor (Index 0) = Inl NoPalette
   \<and> getPaletteIndexAt fresh_indexed (XY 0 0) = Inl IndexOutOfRange
   \<and> getPaletteColorAt fresh_indexed (XY 0 0) = Inl IndexOutOfRange
   \<and> getPaletteIndexAt painted_indexed (XY 0 0) = Inr (Num 0)
   \<and> getPaletteColorAt painted_indexed (XY 0 0) = Inr (Arr [10, 20, 30])"
  using C7_palette_lookup [of fresh_truecolor "Index 0"]
    C7_palette_lookup [of fresh_indexed "XY 0 0" "\<lparr>p_palette = [], p_maxNumberOfColors = 256\<rparr>"]
    C7_palette_lookup
      [of painted_indexed "XY 0 0" "\<lparr>p_palette = [[10, 20, 30]], p_maxNumberOfColors = 256\<rparr>"]
  by (simp add: painted_indexed_def fresh_indexed_def fresh_truecolor_def translateXyToIndex_def)

section \<open>The background of an indexed image\<close>

text \<open>
  Claim C9. When a palette chunk is present and no background chunk exists,
  \<open>setBackground(colorData)\<close> overwrites only palette entry 0 with the supplied colour:
  no background chunk is added, every chunk other than the palette and the metadata are
  unchanged, the palette entries other than index 0 and the palette's capacity are
  unchanged, and a subsequent \<open>getBackground()\<close> still returns \<open>undefined\<close>.
\<close>

theorem C9_background_alias:
  assumes palette: "chunk_PLTE d = Some p" and noBackground: "chunk_bKGD d = None"
  shows "setBackground d colorData = Inr (d\<lparr>chunk_PLTE := Some (PLTE_setColorOf p 0 colorData)\<rparr>)
       \<and> (case setBackground d colorData of
             Inl e \<Rightarrow> False
           | Inr d' \<Rightarrow>
               chunk_bKGD d' = None
               \<and> getBackground d' = None
               \<and> chunk_IHDR d' = chunk_IHDR d
               \<and> chunk_IDAT d' = chunk_IDAT d
               \<and> chunk_tRNS d' = chunk_tRNS d
               \<and> getMetaData d' = getMetaData d
               \<and> (case chunk_PLTE d' of
                     None \<Rightarrow> False
                   | Some p' \<Rightarrow>
                       p_maxNumberOfColors p' = p_maxNumberOfColors p
                       \<and> drop 1 (p_palette p') = drop 1 (p_palette p)
                       \<and> (p_palette p \<noteq> [] \<longrightarrow> p_palette p' = colorData # tl (p_palette p))))"
  using palette noBackground
  by (cases "p_palette p")
    (simp_all add: setBackground_def doesContainPLTE_def doesContainBKGD_def getBackground_def
      getMetaData_def PLTE_setColorOf_def)

text \<open>The theorem on the painted document, whose palette has one entry.\<close>

theorem C9_background_alias_witness:
  "setBackground painted_indexed [1, 2, 3]
     = Inr (painted_indexed
              \<lparr>chunk_PLTE := Some \<lparr>p_palette = [[1, 2, 3]], p_maxNumberOfColors = 256\<rparr>\<rparr>)
   \<and> getBackground
        (painted_indexed
           \<lparr>chunk_PLTE := Some \<lparr>p_palette = [[1, 2, 3]], p_maxNumberOfColors = 256\<rparr>\<rparr>) = None"
  using C9_background_alias
      [of painted_indexed "\<lparr>p_palette = [[10, 20, 30]], p_maxNumberOfColors = 256\<rparr>" "[1, 2, 3]"]
  by (simp add: painted_indexed_def fresh_indexed_def PLTE_setColorOf_def getBackground_def)

section \<open>Writing a pixel of an indexed image\<close>

lemma firstIndexOf_found:
  "c \<in> set xs \<Longrightarrow> \<exists>k<length xs. firstIndexOf xs c i = int (i + k) \<and> xs ! k = c"
proof (induction xs arbitrary: i)
  case Nil
  then show ?case by simp
next
  case (Cons x xs)
  show ?case
  proof (cases "x = c")
    case True
    then show ?thesis by auto
  next
    case False
    with Cons.prems have "c \<in> set xs" by simp
    from Cons.IH [OF this, of "Suc i"] obtain k where
      "k < length xs" "firstIndexOf xs c (Suc i) = int (Suc i + k)" "xs ! k = c" by blast
    with False show ?thesis by (intro exI [of _ "Suc k"]) simp
  qed
qed

lemma clamp8_byte: "k \<le> 255 \<Longrightarrow> clamp8 (int k) = k"
  by (simp add: clamp8_def)

lemma capacity_bound: "d \<le> 8 \<Longrightarrow> computeMaxNumberOfColors d \<le> 256"
proof -
  assume "d \<le> 8"
  then have "(2::nat) ^ d \<le> 2 ^ 8" by (intro power_increasing) simp_all
  then show ?thesis by (simp add: computeMaxNumberOfColors_def)
qed

lemma setTransparency_frame:
  "chunk_PLTE (setTransparency d v i) = chunk_PLTE d
   \<and> chunk_IDAT (setTransparency d v i) = chunk_IDAT d"
  by (simp add: setTransparency_def Let_def)

lemma setPixelAt_indexed:
  assumes indexed: "png_colorType d = INDEXED"
    and palette: "chunk_PLTE d = Some p"
    and data: "toArray data0 = r # g # b # rest"
  shows "setPixelAt d pos data0 =
     (case (if [r, g, b] \<in> set (p_palette p)
            then Inr (p, PLTE_getPaletteIndex p [r, g, b])
            else PLTE_addColor p [r, g, b]) of
        Inl e \<Rightarrow> Inl e
      | Inr (p', paletteIndex) \<Rightarrow>
          (let d1 = d\<lparr>chunk_PLTE := Some p',
                      chunk_IDAT := IDAT_setPixelOf (chunk_IDAT d) (resolveIndex d pos)
                                      (Num paletteIndex)\<rparr>
           in case rest of
                [] \<Rightarrow> Inr d1
              | opacity # _ \<Rightarrow> Inr (setTransparency d1 (Num opacity) paletteIndex)))"
  using assms
  by (cases rest)
    (simp_all add: setPixelAt_def requiredSamples_def RnPng_isIndexed_def isIndexed_def
      hasAlphaChannel_def PLTE_isColorInPalette_def Let_def split: sum.splits prod.splits)

text \<open>
  Claim C5. On an indexed image whose palette is not full, \<open>setPixelAt\<close> with an RGB
  colour that is not yet in the palette increases the palette length by exactly one and
  stores at the pixel a palette index equal to the new length minus one; with a colour
  already in the palette it leaves the palette unchanged and stores the index of the
  existing entry (the first one that is equal to the colour). The palette's capacity
  is the one the constructor gives it, \<open>2 ^ depth\<close> for a valid depth, and the pixel
  lies inside the sample buffer. A fourth sample, if supplied, goes to the transparency
  chunk and changes neither the palette nor the stored index.
\<close>

theorem C5_palette_growth:
  assumes indexed: "png_colorType d = INDEXED"
    and palette: "chunk_PLTE d = Some p"
    and notFull: "length (p_palette p) < p_maxNumberOfColors p"
    and capacity: "p_maxNumberOfColors p = computeMaxNumberOfColors (png_depth d)"
    and depth: "png_depth d \<le> 8"
    and data: "toArray data0 = r # g # b # rest"
    and inside: "resolveIndex d pos < length (i_pixelData (chunk_IDAT d))"
  shows "case setPixelAt d pos data0 of
           Inl e \<Rightarrow> False
         | Inr d' \<Rightarrow>
            (case chunk_PLTE d' of
               None \<Rightarrow> False
             | Some p' \<Rightarrow>
                (let stored = i_pixelData (chunk_IDAT d') ! resolveIndex d pos
                 in if [r, g, b] \<in> set (p_palette p)
                    then length (p_palette p') = length (p_palette p)
                         \<and> p_palette p' = p_palette p
                         \<and> int stored = PLTE_getPaletteIndex p [r, g, b]
                         \<and> stored < length (p_palette p)
                         \<and> p_palette p ! stored = [r, g, b]
                    else length (p_palette p') = length (p_palette p) + 1
                         \<and> stored = length (p_palette p') - 1
                         \<and> p_palette p' ! stored = [r, g, b]))"
proof -
  have bound: "length (p_palette p) \<le> 255"
    using notFull capacity capacity_bound [OF depth] by simp
  show ?thesis
  proof (cases "[r, g, b] \<in> set (p_palette p)")
    case True
    from firstIndexOf_found [OF True, of 0] obtain k where
      k: "k < length (p_palette p)" "PLTE_getPaletteIndex p [r, g, b] = int k"
        "p_palette p ! k = [r, g, b]"
      by (auto simp add: PLTE_getPaletteIndex_def)
    have "clamp8 (int k) = k" using k(1) bound by (intro clamp8_byte) simp
    then show ?thesis
      using True k inside setPixelAt_indexed [OF indexed palette data, of pos]
      by (cases rest) (simp_all add: IDAT_setPixelOf_def setTransparency_frame Let_def)
  next
    case False
    have "clamp8 (int (length (p_palette p))) = length (p_palette p)"
      using bound by (rule clamp8_byte)
    then show ?thesis
      using False notFull inside setPixelAt_indexed [OF indexed palette data, of pos]
      by (cases rest)
        (simp_all add: PLTE_addColor_def IDAT_setPixelOf_def setTransparency_frame Let_def)
  qed
qed

text \<open>
  The theorem on the fresh indexed document (a new colour) and on the painted one (the
  same colour again).
\<close>

theorem C5_palette_growth_witness:
  "setPixelAt fresh_indexed (XY 0 0) (Samples [10, 20, 30]) = Inr painted_indexed
   \<and> chunk_PLTE painted_indexed = Some \<lparr>p_palette = [[10, 20, 30]], p_maxNumberOfColors = 256\<rparr>
   \<and> i_pixelData (chunk_IDAT painted_indexed) ! 0 = 0
   \<and> setPixelAt painted_indexed (XY 0 0) (Samples [10, 20, 30]) = Inr painted_indexed"
  using C5_palette_growth [of fresh_indexed "\<lparr>p_palette = [], p_maxNumberOfColors = 256\<rparr>"
      "Samples [10, 20, 30]" 10 20 30 "[]" "XY 0 0"]
    C5_palette_growth [of painted_indexed
      "\<lparr>p_palette = [[10, 20, 30]], p_maxNumberOfColors = 256\<rparr>"
      "Samples [10, 20, 30]" 10 20 30 "[]" "XY 0 0"]
  by (simp add: pixel_defs fresh_indexed_def painted_indexed_def computeMaxNumberOfColors_def)

section \<open>Writing a pixel with an opacity sample\<close>

lemma setPixelAt_direct:
  assumes ct: "png_colorType d = GRAYSCALE \<or> png_colorType d = TRUECOLOR"
    and data: "toArray data0 = colorData @ opacity # rest"
    and size: "length colorData = determineFullPixelSize (png_colorType d)"
  shows "setPixelAt d pos data0 =
     (let d1 = d\<lparr>chunk_IDAT :=
                   IDAT_setPixelOf (chunk_IDAT d) (resolveIndex d pos) (Arr colorData)\<rparr>
      in if 255 = opacity \<and> doesColorExistInTransparencies d1 colorData
         then removeTransparency d1 colorData
         else Inr (setTransparency d1 (Arr colorData) (-1)))"
proof -
  let ?n = "determineFullPixelSize (png_colorType d)"
  have req: "requiredSamples d = ?n" and noAlpha: "\<not> hasAlphaChannel d"
    and notIndexed: "\<not> RnPng_isIndexed d"
    using ct by (auto simp add: requiredSamples_def RnPng_isIndexed_def isIndexed_def
        hasAlphaChannel_def)
  have cut: "take (?n + 1) (toArray data0) = colorData @ [opacity]"
    using data size by simp
  have color: "take ?n (colorData @ [opacity]) = colorData"
    using size by simp
  show ?thesis
    unfolding setPixelAt_def Let_def req cut color
    using noAlpha notIndexed data size by simp
qed

text \<open>
  Claim C8. For a grayscale or truecolour image (no palette, no alpha), \<open>setPixelAt\<close>
  with a tuple of the colour samples and one trailing opacity sample writes the colour
  samples to the pixel buffer and then: if the opacity is 255 and the colour is already
  registered as a colour-key transparency, removes that entry; in every other case
  (any other opacity, or opacity 255 with the colour not registered) inserts a colour-key
  entry for the colour, creating the transparency chunk if it does not yet exist.
  Samples after the opacity sample are ignored.
\<close>

theorem C8_opacity_sample:
  assumes ct: "png_colorType d = GRAYSCALE \<or> png_colorType d = TRUECOLOR"
    and data: "toArray data0 = colorData @ opacity # rest"
    and size: "length colorData = determineFullPixelSize (png_colorType d)"
  shows "case setPixelAt d pos data0 of
           Inl e \<Rightarrow> False
         | Inr d' \<Rightarrow>
             i_pixelData (chunk_IDAT d')
               = write_samples (i_pixelData (chunk_IDAT d)) (resolveIndex d pos) colorData
             \<and> (if opacity = 255 \<and> doesColorExistInTransparencies d colorData
                then (case chunk_tRNS d of
                        None \<Rightarrow> False
                      | Some t \<Rightarrow> chunk_tRNS d' = Some (tRNS_removeTransparency t colorData))
                     \<and> \<not> doesColorExistInTransparencies d' colorData
                else chunk_tRNS d'
                       = Some (tRNS_setTransparency
                                 (case chunk_tRNS d of
                                    None \<Rightarrow> tRNS_new (png_colorType d)
                                              (computeNumberOfPixels (png_width d) (png_height d))
                                              (computeMaxNumberOfColors (png_depth d))
                                  | Some t \<Rightarrow> t)
                                 (Arr colorData) (-1))
                     \<and> doesColorExistInTransparencies d' colorData)"
proof (cases "opacity = 255 \<and> doesColorExistInTransparencies d colorData")
  case True
  then obtain t where t: "chunk_tRNS d = Some t"
    by (auto simp add: doesColorExistInTransparencies_def split: option.splits)
  show ?thesis
    using True t ct setPixelAt_direct [OF ct data size, of pos]
    by (auto simp add: Let_def doesColorExistInTransparencies_def removeTransparency_def
        RnPng_isIndexed_def isIndexed_def IDAT_setPixelOf_def tRNS_isTransparencySet_def
        tRNS_removeTransparency_def)
next
  case False
  then show ?thesis
    using setPixelAt_direct [OF ct data size, of pos]
    by (auto simp add: Let_def doesColorExistInTransparencies_def setTransparency_def
        IDAT_setPixelOf_def tRNS_isTransparencySet_def tRNS_setTransparency_def
        split: option.splits)
qed

text \<open>
  The theorem on the fresh truecolour document: opacity 255 or 0 on an unregistered
  colour registers it; opacity 255 on the registered colour removes it.
\<close>

theorem C8_opacity_sample_witness:
  "setPixelAt fresh_truecolor (XY 0 0) (Samples [1, 2, 3, 255]) = Inr keyed_truecolor
   \<and> setPixelAt fresh_truecolor (XY 0 0) (Samples [1, 2, 3, 0]) = Inr keyed_truecolor
   \<and> setPixelAt keyed_truecolor (XY 0 0) (Samples [1, 2, 3, 255])
       = Inr (keyed_truecolor
                \<lparr>chunk_tRNS := Some \<lparr>t_colorType = TRUECOLOR, t_numberOfPixels = 1,
                                     t_maxNumberOfColors = 256, t_transparencies = []\<rparr>\<rparr>)"
  using C8_opacity_sample [of fresh_truecolor "Samples [1, 2, 3, 255]" "[1, 2, 3]" 255 "[]" "XY 0 0"]
    C8_opacity_sample [of fresh_truecolor "Samples [1, 2, 3, 0]" "[1, 2, 3]" 0 "[]" "XY 0 0"]
    C8_opacity_sample [of keyed_truecolor "Samples [1, 2, 3, 255]" "[1, 2, 3]" 255 "[]" "XY 0 0"]
  by (simp add: pixel_defs fresh_truecolor_def keyed_truecolor_def determineFullPixelSize_def
      doesColorExistInTransparencies_def setTransparency_def tRNS_new_def
      tRNS_setTransparency_def tRNS_isTransparencySet_def removeTransparency_def
      tRNS_removeTransparency_def computeNumberOfPixels_def computeMaxNumberOfColors_def)

section \<open>Saving and loading again\<close>

lemma new_default: "RnPng_new default_options = Inr fresh_default"
  by (simp add: constructor_defs default_options_def fresh_default_def)

lemma paint_plte_truecolor:
  "getPixelAt plte_truecolor (XY 0 0) = Inr (Arr [80, 76, 84])
   \<and> getPixelAt plte_truecolor (XY 1 0) = Inr (Arr [69, 0, 0])"
  by (simp add: pixel_defs plte_truecolor_def eval_nat_numeral)

lemma stored_blocks_length:
  "n = (65534 + length bytes) div 65535 \<Longrightarrow>
   length (stored_blocks n bytes) = length bytes + 5 * n"
proof (induction n arbitrary: bytes)
  case 0
  then have "length bytes = 0" by (simp add: div_eq_0_iff)
  then show ?case by simp
next
  case (Suc n)
  have rest: "n = (65534 + length (drop 65535 bytes)) div 65535"
    using Suc.prems by simp
  have nonempty: "0 < length bytes"
    using Suc.prems by (cases bytes) simp_all
  show ?case
    using Suc.IH [OF rest] nonempty by (simp add: Let_def min_def)
qed

text \<open>
  The stored-block codec produces exactly as many bytes as \<open>calculatePayloadSize\<close>
  predicts, for every input of at most \<open>2^52\<close> bytes.
\<close>

lemma stored_deflate_length:
  assumes "length bytes \<le> 2 ^ 52"
  shows "calculatePayloadSize c (Some (length bytes)) = Some (length (stored_deflate bytes))"
proof -
  have "length (stored_deflate bytes)
        = 2 + length bytes + 5 * ((0xfffe + length bytes) div 0xffff) + 4"
    using stored_blocks_length [OF refl, of bytes]
    by (simp add: stored_deflate_def adler32_def Let_def split: prod.splits)
  then show ?thesis
    using payload_size_exact [OF assms, of c] by (simp only: blocks_floor_is_ceiling)
qed

text \<open>
  The pixel-data payload of the encoded image is what \<open>update\<close> computes from the painted
  document with the stored-block codec, and its length is the predicted payload size.
\<close>

lemma update_plte_truecolor:
  "IDAT_update_compressed depth8_encoders (chunk_IDAT plte_truecolor)
     = [120, 1] @ [1, 7, 0, 248, 255] @ [0, 80, 76, 84, 69, 0, 0] @ [5, 130, 1, 54]"
  by (simp add: IDAT_update_compressed_def depth8_encoders_def plte_truecolor_def
      determineFullPixelSize_def stored_deflate_def adler32_def clamp8_def Let_def)

lemma saved_plte_truecolor:
  "plte_truecolor_png =
     PNG_SIGNATURE
     @ [0, 0, 0, 13] @ ChunkHeaderSequences ''IHDR''
       @ [0, 0, 0, 2, 0, 0, 0, 1, 8, 2, 0, 0, 0] @ [123, 64, 232, 221]
     @ [0, 0, 0, 18] @ ChunkHeaderSequences ''IDAT''
       @ IDAT_update_compressed depth8_encoders (chunk_IDAT plte_truecolor)
       @ [146, 248, 6, 151]
     @ [0, 0, 0, 0] @ ChunkHeaderSequences ''IEND'' @ [174, 66, 96, 130]
   \<and> calculatePayloadSize (chunk_IDAT plte_truecolor) None = Some 18"
proof (rule conjI)
  have "calculatePixelAndFilterSize (chunk_IDAT plte_truecolor) = Some 7"
    by (simp add: calculatePixelAndFilterSize_def plte_truecolor_def js_add_def js_mul_def
        toDouble_def)
  then show "calculatePayloadSize (chunk_IDAT plte_truecolor) None = Some 18"
    using payload_size_default [of "chunk_IDAT plte_truecolor" 7]
      payload_size_exact [of 7 "chunk_IDAT plte_truecolor"]
    by simp
next
  show "plte_truecolor_png =
     PNG_SIGNATURE
     @ [0, 0, 0, 13] @ ChunkHeaderSequences ''IHDR''
       @ [0, 0, 0, 2, 0, 0, 0, 1, 8, 2, 0, 0, 0] @ [123, 64, 232, 221]
     @ [0, 0, 0, 18] @ ChunkHeaderSequences ''IDAT''
       @ IDAT_update_compressed depth8_encoders (chunk_IDAT plte_truecolor)
       @ [146, 248, 6, 151]
     @ [0, 0, 0, 0] @ ChunkHeaderSequences ''IEND'' @ [174, 66, 96, 130]"
    unfolding update_plte_truecolor by (simp add: plte_truecolor_png_def)
qed

lemma plte_truecolor_png_bytes:
  "plte_truecolor_png =
     [137, 80, 78, 71, 13, 10, 26, 10,
      0, 0, 0, 13, 73, 72, 68, 82, 0, 0, 0, 2, 0, 0, 0, 1, 8, 2, 0, 0, 0, 123, 64, 232, 221,
      0, 0, 0, 18, 73, 68, 65, 84,
      120, 1, 1, 7, 0, 248, 255, 0, 80, 76, 84, 69, 0, 0, 5, 130, 1, 54,
      146, 248, 6, 151,
      0, 0, 0, 0, 73, 69, 78, 68, 174, 66, 96, 130]"
  by (simp add: plte_truecolor_png_def PNG_SIGNATURE_def ChunkHeaderSequences_def)

lemmas scan_defs = indexOfSequence_def ChunkHeaderSequences_def plte_truecolor_png_bytes

lemma scan_IHDR: "indexOfSequence plte_truecolor_png (ChunkHeaderSequences ''IHDR'') 0 = 12"
  by (simp add: scan_defs)

lemma scan_PLTE: "indexOfSequence plte_truecolor_png (ChunkHeaderSequences ''PLTE'') 16 = 49"
  by (simp add: scan_defs)

lemma scan_tRNS: "indexOfSequence plte_truecolor_png (ChunkHeaderSequences ''tRNS'') 53 = -1"
  by (simp add: scan_defs)

lemma scan_bKGD: "indexOfSequence plte_truecolor_png (ChunkHeaderSequences ''bKGD'') 53 = -1"
  by (simp add: scan_defs)

lemma scan_IDAT: "indexOfSequence plte_truecolor_png (ChunkHeaderSequences ''IDAT'') 53 = -1"
  by (simp add: scan_defs)

lemma verify_png:
  "Prefix_verify plte_truecolor_png \<and> IHDR_verify plte_truecolor_png
   \<and> IDAT_verify plte_truecolor_png \<and> IEND_verify plte_truecolor_png"
  by (simp add: Prefix_verify_def IHDR_verify_def IDAT_verify_def IEND_verify_def
      PNG_SIGNATURE_def scan_defs)

lemma from_plte_truecolor_png:
  "RnPng_from L d plte_truecolor_png =
     (case loadChunk L (d\<lparr>chunk_PLTE := None\<rparr>) ''IHDR'' (drop 8 plte_truecolor_png) of
        Inl e \<Rightarrow> Inl e
      | Inr d1 \<Rightarrow> loadChunk L d1 ''PLTE'' (drop 45 plte_truecolor_png))"
  using verify_png
  by (simp add: RnPng_from_def SupportedChunks_def scan_IHDR scan_PLTE scan_tRNS scan_bKGD
      scan_IDAT subarrayFrom_def CHUNK_LENGTH_SIZE_def split: sum.splits)

lemma loadChunk_keeps_pixels:
  assumes "loadChunk L ctxt h bytes = Inr ctxt'" and "h \<noteq> ''IDAT''"
  shows "chunk_IDAT ctxt' = chunk_IDAT ctxt"
  using assms
  by (auto simp add: loadChunk_def applyMetaData_def split: if_splits sum.splits)

lemma loadChunk_keeps_transparency:
  assumes "loadChunk L ctxt h bytes = Inr ctxt'" and "h \<noteq> ''tRNS''"
  shows "chunk_tRNS ctxt' = chunk_tRNS ctxt"
  using assms
  by (auto simp add: loadChunk_def applyMetaData_def split: if_splits sum.splits)

lemma getPixelAt_of_undefined:
  assumes "IDAT_getPixelOf (chunk_IDAT d) (resolveIndex d pos) = Undefined"
  shows "getPixelAt d pos \<noteq> Inr (Arr xs)"
  using assms
  by (auto simp add: getPixelAt_def Let_def split: option.splits sum.splits)

text \<open>
  Claim C1. Saving an image with valid metadata and a fully written pixel buffer and
  loading the bytes into a fresh document reproduces the metadata and, at every
  coordinate, the pixel value \<open>getPixelAt\<close> returned on the original, for a codec with
  \<open>inflate(deflate(b)) = b\<close>.

  \<open>from\<close> finds each chunk by searching for the four bytes of its type from the end of
  the previous match onward. In the encoded 2-by-1 truecolour image, saved with a codec
  that writes stored blocks, the bytes of the scanline spell \<open>PLTE\<close> inside the
  pixel-data payload; the search finds them at
  index 49, a palette chunk is loaded from there, and the search for \<open>IDAT\<close> starts at
  index 53, past the pixel-data chunk at index 37. So, whatever the chunk loaders and
  the codec do, either \<open>from\<close> throws or the reloaded document still has the empty
  sample buffer of the fresh document, and \<open>getPixelAt([0, 0])\<close> does not return the
  original pixel (80, 76, 84). With the sample loaders \<open>from\<close> returns, and the pixel
  reads \<open>undefined\<close>.
\<close>

theorem C1_reload_skips_pixel_data:
  "getPixelAt plte_truecolor (XY 0 0) = Inr (Arr [80, 76, 84])
   \<and> (case RnPng_from L fresh_default plte_truecolor_png of
         Inl e \<Rightarrow> True
       | Inr d' \<Rightarrow>
           chunk_IDAT d' = chunk_IDAT fresh_default
           \<and> getPixelAt d' (XY 0 0) \<noteq> getPixelAt plte_truecolor (XY 0 0))
   \<and> RnPng_from sample_loaders fresh_default plte_truecolor_png = Inr plte_truecolor_reloaded
   \<and> getPixelAt plte_truecolor_reloaded (XY 0 0) = Inr Undefined"
proof -
  have original: "getPixelAt plte_truecolor (XY 0 0) = Inr (Arr [80, 76, 84])"
    using paint_plte_truecolor by simp
  have general: "(case RnPng_from L fresh_default plte_truecolor_png of
         Inl e \<Rightarrow> True
       | Inr d' \<Rightarrow>
           chunk_IDAT d' = chunk_IDAT fresh_default
           \<and> getPixelAt d' (XY 0 0) \<noteq> getPixelAt plte_truecolor (XY 0 0))"
  proof (cases "RnPng_from L fresh_default plte_truecolor_png")
    case (Inl e)
    then show ?thesis by simp
  next
    case (Inr d')
    then obtain d1 where
      d1: "loadChunk L (fresh_default\<lparr>chunk_PLTE := None\<rparr>) ''IHDR''
             (drop 8 plte_truecolor_png) = Inr d1"
      and d': "loadChunk L d1 ''PLTE'' (drop 45 plte_truecolor_png) = Inr d'"
      unfolding from_plte_truecolor_png by (auto split: sum.splits)
    have pixels: "chunk_IDAT d' = chunk_IDAT fresh_default"
      using loadChunk_keeps_pixels [OF d1] loadChunk_keeps_pixels [OF d'] by simp
    have "IDAT_getPixelOf (chunk_IDAT d') (resolveIndex d' (XY 0 0)) = Undefined"
      unfolding pixels
      by (simp add: fresh_default_def IDAT_getPixelOf_def IDAT_getValueAt_def)
    from getPixelAt_of_undefined [OF this] have "getPixelAt d' (XY 0 0) \<noteq> Inr (Arr [80, 76, 84])" .
    with pixels original Inr show ?thesis by simp
  qed
  have run: "RnPng_from sample_loaders fresh_default plte_truecolor_png
               = Inr plte_truecolor_reloaded"
    unfolding from_plte_truecolor_png
    by (simp add: loadChunk_def sample_loaders_def IHDR_load_def colorTypeOfCode_def
        readUint32_def calculateDataOffset_def CHUNK_LENGTH_SIZE_def CHUNK_TYPE_SIZE_def
        applyMetaData_def BitDepths_def BitDepths_EIGHT_def PLTE_new_def
        computeMaxNumberOfColors_def plte_truecolor_png_bytes fresh_default_def
        plte_truecolor_reloaded_def)
  have reloaded: "getPixelAt plte_truecolor_reloaded (XY 0 0) = Inr Undefined"
    by (simp add: pixel_defs plte_truecolor_reloaded_def)
  show ?thesis using original general run reloaded by simp
qed

text \<open>
  The theorem with the sample loaders: \<open>from\<close> returns, the reloaded document has the
  sample buffer of the fresh document, and its pixel at (0, 0) is not the original's.
\<close>

theorem C1_reload_skips_pixel_data_witness:
  "RnPng_from sample_loaders fresh_default plte_truecolor_png = Inr plte_truecolor_reloaded
   \<and> chunk_IDAT plte_truecolor_reloaded = chunk_IDAT fresh_default
   \<and> getPixelAt plte_truecolor_reloaded (XY 0 0) \<noteq> getPixelAt plte_truecolor (XY 0 0)"
  using C1_reload_skips_pixel_data [of sample_loaders]
  by (simp add: plte_truecolor_reloaded_def fresh_default_def)

end
